theory Spec2Isabelle
  imports Complex_Main "HOL-Library.Word" "HOL-Library.AList"
begin

section \<open>JavaScript values and number conversions\<close>

text \<open>
  Identifiers and map keys of the program are dynamically typed: an element ID is either a
  number or a string, and a key of the reader's chunk cache is either the string found in
  the manifest or the number found in the spatial index. Numbers are modelled as integers
  (all IDs, counts and hashes of the program are integer valued and far below \<open>2 ^ 53\<close>,
  where JavaScript arithmetic on them is exact); strict equality \<open>===\<close> is equality of
  this datatype, so a string never equals a number.
\<close>

datatype jsval = JNum int | JStr string

text \<open>\<open>ToInt32\<close>, the conversion applied by the bitwise operators \<open><<\<close> and \<open>&\<close>.\<close>

definition toInt32 :: "int \<Rightarrow> int" where
  "toInt32 x = (x + 2 ^ 31) mod 2 ^ 32 - 2 ^ 31"

text \<open>\<open>ToUint32\<close> and \<open>ToUint16\<close>, the conversions applied by \<open>DataView.setUint32\<close> and
  \<open>DataView.setUint16\<close> to the number they store.\<close>

definition toUint32 :: "int \<Rightarrow> int" where
  "toUint32 x = x mod 2 ^ 32"

definition toUint16 :: "int \<Rightarrow> int" where
  "toUint16 x = x mod 2 ^ 16"

text \<open>Truthiness, as \<open>||\<close> and \<open>&&\<close> test it: \<open>0\<close> and the empty string are falsy.\<close>

definition truthy :: "jsval \<Rightarrow> bool" where
  "truthy v = (case v of JNum n \<Rightarrow> n \<noteq> 0 | JStr s \<Rightarrow> s \<noteq> [])"

text \<open>\<open>String(n)\<close> for an integer: its decimal digits.\<close>

definition digitChar :: "nat \<Rightarrow> char" where
  "digitChar d = ''0123456789'' ! d"

function showNat :: "nat \<Rightarrow> string" where
  "showNat n = (if n < 10 then [digitChar n] else showNat (n div 10) @ [digitChar (n mod 10)])"
  by pat_completeness auto
termination
  by (relation "measure id") auto

definition jsToString :: "jsval \<Rightarrow> string" where
  "jsToString v =
     (case v of
        JStr s \<Rightarrow> s
      | JNum n \<Rightarrow> if n < 0 then CHR ''-'' # showNat (nat (- n)) else showNat (nat n))"

text \<open>\<open>s.padStart(3, '0')\<close>.\<close>

definition padStart3 :: "string \<Rightarrow> string" where
  "padStart3 s = replicate (3 - length s) CHR ''0'' @ s"

text \<open>
  \<open>ToNumber\<close> of a string, for the strings the program applies it to: a string of decimal
  digits is its value (leading zeros allowed), the empty string is 0; any other string is
  treated as \<open>NaN\<close>, here \<open>None\<close>.
\<close>

definition isDigit :: "char \<Rightarrow> bool" where
  "isDigit c = (48 \<le> (of_char c :: nat) \<and> (of_char c :: nat) \<le> 57)"

definition stringToNumber :: "string \<Rightarrow> int option" where
  "stringToNumber s =
     (if list_all isDigit s
      then Some (foldl (\<lambda>acc c. 10 * acc + (int (of_char c) - 48)) 0 s)
      else None)"

text \<open>\<open>s.toLowerCase()\<close> on ASCII letters.\<close>

definition toLowerCase :: "string \<Rightarrow> string" where
  "toLowerCase s =
     map (\<lambda>c. if 65 \<le> (of_char c :: nat) \<and> (of_char c :: nat) \<le> 90
              then char_of ((of_char c :: nat) + 32) else c) s"

text \<open>A \<open>Set\<close> or the key list of a \<open>Map\<close>, in insertion order: \<open>add\<close> appends a new member.\<close>

definition setAdd :: "'a \<Rightarrow> 'a list \<Rightarrow> 'a list" where
  "setAdd x xs = (if x \<in> set xs then xs else xs @ [x])"

section \<open>Surrogate IDs: \<open>convertToNumericId\<close>\<close>

text \<open>
  \<open>CHDWriter.convertToNumericId\<close> (CHDWriter.js). The loop body is
  \<^verbatim>\<open>hash = ((hash << 5) - hash) + char; hash = hash & hash;\<close>
  where \<open>char\<close> is the code unit \<open>id.charCodeAt(i)\<close>. A string is the list of its code
  units, each below 256, which covers the ASCII strings. The writer's \<open>idMapping\<close> is a
  \<open>Map\<close> from numeric ID to original ID; the function returns the numeric ID together
  with the updated table.
\<close>

fun writerHash :: "int \<Rightarrow> string \<Rightarrow> int" where
  "writerHash hash [] = hash"
| "writerHash hash (c # cs) =
     writerHash (toInt32 ((toInt32 (toInt32 hash * 2 ^ 5) - hash) + int (of_char c))) cs"

definition CHDWriter_convertToNumericId ::
  "(int \<rightharpoonup> jsval) \<Rightarrow> jsval \<Rightarrow> int \<times> (int \<rightharpoonup> jsval)" where
  "CHDWriter_convertToNumericId idMapping ident =
     (case ident of
        JNum n \<Rightarrow> (n, idMapping)
      | JStr s \<Rightarrow>
          (let numericId = \<bar>writerHash 0 s\<bar>
           in (numericId, idMapping(numericId \<mapsto> ident))))"

text \<open>\<open>CHDParser.convertToNumericId\<close> (the reader): the same loop, written a second time
  in the reader's source, without the table.\<close>

fun parserHash :: "int \<Rightarrow> string \<Rightarrow> int" where
  "parserHash hash [] = hash"
| "parserHash hash (c # cs) =
     parserHash (toInt32 ((toInt32 (toInt32 hash * 2 ^ 5) - hash) + int (of_char c))) cs"

definition CHDParser_convertToNumericId :: "jsval \<Rightarrow> int" where
  "CHDParser_convertToNumericId ident =
     (case ident of JNum n \<Rightarrow> n | JStr s \<Rightarrow> \<bar>parserHash 0 s\<bar>)"

section \<open>The binary codec's reader: \<open>BinaryReader\<close>\<close>

text \<open>
  The reader is a byte buffer with a cursor. The cursor starts at 0 and every operation
  adds a byte count to it, so it is a natural number; \<open>skip\<close> does not look at the
  buffer and can move it past the end. A read returns either the error it throws or its
  value, together with the reader as the call leaves it.
  The floating-point reads return the IEEE bit pattern that \<open>DataView.getFloat32\<close> and
  \<open>getFloat64\<close> decode, taken in the reader's byte order; the decoding to a number is
  not part of this model.
\<close>

type_synonym byte = "8 word"

record BinaryReader =
  br_buffer :: "byte list"
  br_offset :: nat
  br_littleEndian :: bool

text \<open>
  The errors of the primitive reads, with the parts their messages are built from:
  \<open>CannotReadBytes length offset\<close> is \<^verbatim>\<open>Cannot read ${length} bytes at offset ${offset}\<close>,
  \<open>CannotRead T offset\<close> is \<^verbatim>\<open>Cannot read T at offset ${offset}\<close>.
\<close>

datatype read_error = CannotReadBytes nat nat | CannotRead string nat

definition canRead :: "BinaryReader \<Rightarrow> nat \<Rightarrow> bool" where
  "canRead r bytes = (br_offset r + bytes \<le> length (br_buffer r))"

definition skip :: "BinaryReader \<Rightarrow> nat \<Rightarrow> BinaryReader" where
  "skip r bytes = r\<lparr>br_offset := br_offset r + bytes\<rparr>"

text \<open>The \<open>n\<close> bytes under the cursor, most significant first in the reader's byte order.\<close>

definition viewBytes :: "BinaryReader \<Rightarrow> nat \<Rightarrow> byte list" where
  "viewBytes r n =
     (let bs = take n (drop (br_offset r) (br_buffer r))
      in if br_littleEndian r then rev bs else bs)"

definition readBytes :: "BinaryReader \<Rightarrow> nat \<Rightarrow> (read_error + byte list) \<times> BinaryReader" where
  "readBytes r len =
     (if \<not> canRead r len then (Inl (CannotReadBytes len (br_offset r)), r)
      else (Inr (take len (drop (br_offset r) (br_buffer r))),
            r\<lparr>br_offset := br_offset r + len\<rparr>))"

definition readUInt8 :: "BinaryReader \<Rightarrow> (read_error + nat) \<times> BinaryReader" where
  "readUInt8 r =
     (if \<not> canRead r 1 then (Inl (CannotRead ''UInt8'' (br_offset r)), r)
      else (Inr (unat (br_buffer r ! br_offset r)), r\<lparr>br_offset := br_offset r + 1\<rparr>))"

definition readUInt16 :: "BinaryReader \<Rightarrow> (read_error + nat) \<times> BinaryReader" where
  "readUInt16 r =
     (if \<not> canRead r 2 then (Inl (CannotRead ''UInt16'' (br_offset r)), r)
      else (Inr (unat (word_rcat (viewBytes r 2) :: 16 word)),
            r\<lparr>br_offset := br_offset r + 2\<rparr>))"

definition readUInt32 :: "BinaryReader \<Rightarrow> (read_error + nat) \<times> BinaryReader" where
  "readUInt32 r =
     (if \<not> canRead r 4 then (Inl (CannotRead ''UInt32'' (br_offset r)), r)
      else (Inr (unat (word_rcat (viewBytes r 4) :: 32 word)),
            r\<lparr>br_offset := br_offset r + 4\<rparr>))"

definition readInt32 :: "BinaryReader \<Rightarrow> (read_error + int) \<times> BinaryReader" where
  "readInt32 r =
     (if \<not> canRead r 4 then (Inl (CannotRead ''Int32'' (br_offset r)), r)
      else (Inr (sint (word_rcat (viewBytes r 4) :: 32 word)),
            r\<lparr>br_offset := br_offset r + 4\<rparr>))"

definition readFloat32 :: "BinaryReader \<Rightarrow> (read_error + 32 word) \<times> BinaryReader" where
  "readFloat32 r =
     (if \<not> canRead r 4 then (Inl (CannotRead ''Float32'' (br_offset r)), r)
      else (Inr (word_rcat (viewBytes r 4)), r\<lparr>br_offset := br_offset r + 4\<rparr>))"

definition readFloat64 :: "BinaryReader \<Rightarrow> (read_error + 64 word) \<times> BinaryReader" where
  "readFloat64 r =
     (if \<not> canRead r 8 then (Inl (CannotRead ''Float64'' (br_offset r)), r)
      else (Inr (word_rcat (viewBytes r 8)), r\<lparr>br_offset := br_offset r + 8\<rparr>))"

section \<open>Geometry and the producer's model\<close>

text \<open>
  A coordinate is a finite JavaScript number, hence a rational. A vertex is the array
  \<open>[x, y, z]\<close>, a face the array \<open>[i, j, k]\<close> of vertex indices, a bounding box the object
  \<open>{min, max}\<close>.
\<close>

type_synonym vec3 = "rat \<times> rat \<times> rat"
type_synonym face = "int \<times> int \<times> int"

record bbox =
  bb_min :: vec3
  bb_max :: vec3

definition zeroBox :: bbox where
  "zeroBox = \<lparr>bb_min = (0, 0, 0), bb_max = (0, 0, 0)\<rparr>"

text \<open>One turn of the min/max loop shared by the bounding-box functions.\<close>

fun expandBox :: "bbox \<Rightarrow> vec3 \<Rightarrow> bbox" where
  "expandBox b (x, y, z) =
     (case (bb_min b, bb_max b) of
        ((minX, minY, minZ), (maxX, maxY, maxZ)) \<Rightarrow>
          \<lparr>bb_min = (min minX x, min minY y, min minZ z),
           bb_max = (max maxX x, max maxY y, max maxZ z)\<rparr>)"

text \<open>
  \<open>CHDWriter.calculateChunkBoundingBox\<close>. The source starts the six running values at
  \<open>\<plusminus>Infinity\<close>; after the first vertex they are that vertex's coordinates, which is where
  the model starts.
\<close>

definition calculateChunkBoundingBox :: "vec3 list \<Rightarrow> bbox" where
  "calculateChunkBoundingBox vertices =
     (case vertices of
        [] \<Rightarrow> zeroBox
      | v # rest \<Rightarrow> foldl expandBox \<lparr>bb_min = v, bb_max = v\<rparr> rest)"

text \<open>
  The element of the producer interface. A field the object may lack is an option.
  \<open>el_properties\<close> says whether the element has a (truthy) \<open>properties\<close> object; the
  property values, name, level and guid are not modelled.
\<close>

record element =
  el_id :: "jsval option"
  el_index :: "nat option"
  el_type :: "string option"
  el_materialId :: "int option"
  el_vertices :: "vec3 list option"
  el_faces :: "face list option"
  el_properties :: bool

text \<open>
  \<open>model.elements\<close> is tested by \<^verbatim>\<open>!model.elements || !Array.isArray(model.elements)\<close>:
  it can be absent (or another falsy value), a value that is not an array, or an array.
  \<open>m_materials\<close> are the keys of \<open>model.materials\<close> (none when the field is absent).
\<close>

datatype elements_field = ElementsMissing | ElementsNotArray | ElementsArray "element list"

record model =
  m_elements :: elements_field
  m_materials :: "string list"

text \<open>\<open>CHDWriter.calculateProjectBoundingBox\<close>: the same loop over the vertices of every
  element that has vertices; \<open>minX === Infinity\<close> holds exactly when there was no vertex.\<close>

definition calculateProjectBoundingBox :: "element list \<Rightarrow> bbox" where
  "calculateProjectBoundingBox elements =
     (case concat (map (\<lambda>e. case el_vertices e of None \<Rightarrow> [] | Some vs \<Rightarrow> vs) elements) of
        [] \<Rightarrow> zeroBox
      | v # rest \<Rightarrow> foldl expandBox \<lparr>bb_min = v, bb_max = v\<rparr> rest)"

text \<open>\<^verbatim>\<open>element.id || `elem_${element.index || 0}`\<close>\<close>

definition elementKey :: "element \<Rightarrow> jsval" where
  "elementKey e =
     (case el_id e of
        Some v \<Rightarrow> if truthy v then v
                  else JStr (''elem_'' @ showNat (case el_index e of None \<Rightarrow> 0 | Some i \<Rightarrow> i))
      | None \<Rightarrow> JStr (''elem_'' @ showNat (case el_index e of None \<Rightarrow> 0 | Some i \<Rightarrow> i)))"

text \<open>\<open>CHDWriter.getElementTypeCode\<close>\<close>

definition typeMap :: "(string \<times> int) list" where
  "typeMap = [(''wall'', 1), (''slab'', 2), (''beam'', 3), (''column'', 4), (''door'', 5),
     (''window'', 6), (''roof'', 7), (''stair'', 8), (''railing'', 9), (''furniture'', 10),
     (''generic'', 99)]"

definition getElementTypeCode :: "string \<Rightarrow> int" where
  "getElementTypeCode t =
     (case map_of typeMap (toLowerCase t) of None \<Rightarrow> 99 | Some code \<Rightarrow> code)"

section \<open>The container\<close>

text \<open>
  A container is a directory; it is modelled as the map from the relative path of a file
  to what the file holds. The byte layout of the two binary files is abstracted to the
  sequence of fields that the writer writes and the reader reads back in the same order;
  each field holds the value after the conversion of the \<open>BinaryWriter\<close> call that
  stores it (\<open>ToUint32\<close>, \<open>ToUint16\<close>, rounding to binary32). Counts and offsets are
  lengths of arrays, hence below \<open>2 ^ 32\<close>, and are stored as they are. The rounding to
  binary32 is a parameter \<open>f32\<close> of the writing functions. Compression is assumed lossless:
  a deflated array is read back as it was written.
\<close>

record chunk_header =
  h_version :: int
  h_compression :: int
  h_elementCount :: nat
  h_vertexCount :: nat
  h_faceCount :: nat
  h_boundingBox :: bbox

record element_info =
  ei_id :: int
  ei_type :: int
  ei_materialId :: int
  ei_vertexOffset :: nat
  ei_vertexCount :: nat
  ei_faceOffset :: nat
  ei_faceCount :: nat

record chunk_file =
  cf_header :: chunk_header
  cf_elementTable :: "element_info list"
  cf_vertices :: "vec3 list"
  cf_faces :: "face list"

record node_record =
  nr_id :: int
  nr_parentId :: int
  nr_childCount :: nat
  nr_isLeaf :: int
  nr_reserved :: int
  nr_boundingBox :: bbox
  nr_childIds :: "int list"
  nr_elementIds :: "int list"
  nr_chunkId :: int

record index_file =
  if_version :: int
  if_type :: int
  if_maxDepth :: int
  if_nodeCount :: nat
  if_leafCount :: nat
  if_boundingBox :: bbox
  if_nodes :: "node_record list"

text \<open>
  The manifest (\<open>manifest.json\<close>). Of the project only the bounding box is modelled; the
  byte sizes (\<open>size\<close>, \<open>file_size\<close>) and \<open>compression_ratio\<close> depend on the deflate output
  and are left out, as are the time stamps.
\<close>

record statistics =
  total_elements :: nat
  total_vertices :: nat
  total_faces :: nat

record chunk_info =
  ci_id :: string
  ci_file :: string
  ci_elements :: nat

record attribute_info =
  ai_type :: string
  ai_file :: string
  ai_count :: nat

record spatial_info =
  sx_file :: string
  sx_type :: string
  sx_levels :: nat
  sx_nodes :: nat

record manifest =
  mf_format :: string
  mf_version :: string
  mf_bounding_box :: bbox
  mf_geometry_chunks :: "chunk_info list"
  mf_attribute_files :: "attribute_info list"
  mf_spatial_index :: "spatial_info option"
  mf_statistics :: statistics

text \<open>
  What a file holds. An attribute file holds an object keyed by the writer's map keys
  (only the keys are modelled); the two relation files are written but their content is
  not modelled.
\<close>

datatype file_content =
  ManifestJson manifest
| SpatialIdx index_file
| ChunkBin chunk_file
| AttributesCbor "jsval list"
| RelationsJson

type_synonym container = "string \<rightharpoonup> file_content"

text \<open>
  The errors of the writer and the reader that the model distinguishes, with their
  messages. \<open>TypeError\<close> is the dereference of a \<open>null\<close> manifest.
\<close>

datatype js_error =
  ModelMustContainElementsArray     \<comment> \<open>\<^verbatim>\<open>Model must contain an elements array\<close>\<close>
| TypeError
| WritingFailed js_error            \<comment> \<open>\<^verbatim>\<open>CHD writing failed: ...\<close>\<close>
| ParsingFailed js_error            \<comment> \<open>\<^verbatim>\<open>CHD parsing failed: ...\<close>\<close>
| ManifestNotFound                  \<comment> \<open>\<^verbatim>\<open>Manifest file not found. Invalid CHD structure.\<close>\<close>
| InvalidFormat                     \<comment> \<open>\<^verbatim>\<open>Invalid format. Expected CHD format.\<close>\<close>
| UnsupportedVersion string         \<comment> \<open>\<^verbatim>\<open>Unsupported CHD version: ...\<close>\<close>
| FileReadFailed string             \<comment> \<open>\<open>fs.readFile\<close> rejects: no such file, or not of the kind read\<close>
| FailedToParseChunk js_error       \<comment> \<open>\<^verbatim>\<open>Failed to parse geometry chunk: ...\<close>\<close>
| UnsupportedChunkVersion int       \<comment> \<open>\<^verbatim>\<open>Unsupported geometry chunk version: ...\<close>\<close>
| UnsupportedCompression int        \<comment> \<open>\<^verbatim>\<open>Unsupported compression type: ...\<close>\<close>
| FailedToLoadSpatialIndex js_error \<comment> \<open>\<^verbatim>\<open>Failed to load spatial index: ...\<close>\<close>
| UnsupportedIndexVersion int       \<comment> \<open>\<^verbatim>\<open>Unsupported spatial index version: ...\<close>\<close>
| ReadPastEnd                       \<comment> \<open>a \<open>BinaryReader\<close> read past the end of the file\<close>
| ChunkNotFoundInManifest jsval     \<comment> \<open>\<^verbatim>\<open>Chunk ${chunkId} not found in manifest\<close>\<close>
| SpatialIndexNotLoaded             \<comment> \<open>\<^verbatim>\<open>Spatial index not loaded. Enable loadSpatialIndex option.\<close>\<close>

section \<open>The writer: \<open>CHDWriter\<close>\<close>

text \<open>
  The writer's options; \<open>opt_progressCallback\<close> says whether a progress callback is
  configured. A configured callback is modelled as the log \<open>w_progress\<close> of the events it
  is called with (the time stamp of an event is left out). The writer's state is the
  object's fields together with the output directory \<open>w_files\<close> and that log.
\<close>

record writer_options =
  opt_compression :: string
  opt_chunkSize :: nat
  opt_createSpatialIndex :: bool
  opt_progressCallback :: bool

record table_entry =
  te_id :: int
  te_originalId :: jsval
  te_type :: int
  te_materialId :: int
  te_vertexOffset :: nat
  te_vertexCount :: nat
  te_faceOffset :: nat
  te_faceCount :: nat

record chunk =
  ch_id :: string
  ch_elements :: "element list"
  ch_vertices :: "vec3 list"
  ch_faces :: "face list"
  ch_elementTable :: "table_entry list"

record progress_event =
  pe_stage :: string
  pe_percentage :: int

record CHDWriter =
  w_options :: writer_options
  w_manifest :: "manifest option"
  w_chunks :: "chunk list"
  w_materials :: "string list"
  w_properties :: "jsval list"
  w_idMapping :: "int \<rightharpoonup> jsval"
  w_files :: container
  w_progress :: "progress_event list"

text \<open>The constructor, given the options and the output directory as it is found.\<close>

definition defaultOptions :: writer_options where
  "defaultOptions = \<lparr>opt_compression = ''zlib'', opt_chunkSize = 10000,
     opt_createSpatialIndex = True, opt_progressCallback = False\<rparr>"

definition newCHDWriter :: "writer_options \<Rightarrow> container \<Rightarrow> CHDWriter" where
  "newCHDWriter options files =
     \<lparr>w_options = options, w_manifest = None, w_chunks = [], w_materials = [],
      w_properties = [], w_idMapping = Map.empty, w_files = files, w_progress = []\<rparr>"

text \<open>
  \<open>Math.round\<close> and \<open>CHDWriter.reportProgress\<close>. A percentage is modelled as a rational
  number and \<open>Math.round x\<close> as \<open>\<lfloor>x + 1/2\<rfloor>\<close>. The percentages of the program are integers
  or \<open>20 + 30 * (i + 1) / n\<close> for a chunk count \<open>n\<close>; below \<open>2 ^ 45\<close> chunks the
  double-precision value of the latter rounds to the same integer as the rational one.
\<close>

definition mathRound :: "rat \<Rightarrow> int" where
  "mathRound x = \<lfloor>x + 1 / 2\<rfloor>"

definition reportProgress :: "CHDWriter \<Rightarrow> string \<Rightarrow> rat \<Rightarrow> CHDWriter" where
  "reportProgress w stage percentage =
     (if opt_progressCallback (w_options w)
      then w\<lparr>w_progress := w_progress w
             @ [\<lparr>pe_stage = stage, pe_percentage = mathRound percentage\<rparr>]\<rparr>
      else w)"

text \<open>
  \<open>CHDWriter.processChunkGeometry\<close>: the loop over the chunk's elements, with the running
  vertex and face offsets, then the update of the manifest's statistics.
\<close>

fun processElements ::
  "element list \<Rightarrow> nat \<Rightarrow> nat \<Rightarrow> chunk \<Rightarrow> (int \<rightharpoonup> jsval) \<Rightarrow> chunk \<times> (int \<rightharpoonup> jsval)" where
  "processElements [] vertexOffset faceOffset chunk idMapping = (chunk, idMapping)"
| "processElements (element # rest) vertexOffset faceOffset chunk idMapping =
     (case (el_vertices element, el_faces element) of
        (Some vertices, Some faces) \<Rightarrow>
          (let elementFaces =
                 map (\<lambda>(a, b, c). (a + int vertexOffset, b + int vertexOffset,
                        c + int vertexOffset)) faces;
               elementId = elementKey element;
               converted = CHDWriter_convertToNumericId idMapping elementId;
               entry = \<lparr>te_id = fst converted, te_originalId = elementId,
                 te_type = getElementTypeCode
                   (case el_type element of None \<Rightarrow> ''generic''
                    | Some t \<Rightarrow> if t = [] then ''generic'' else t),
                 te_materialId = (case el_materialId element of None \<Rightarrow> 0 | Some m \<Rightarrow> m),
                 te_vertexOffset = vertexOffset, te_vertexCount = length vertices,
                 te_faceOffset = faceOffset, te_faceCount = length faces\<rparr>
           in processElements rest (vertexOffset + length vertices) (faceOffset + length faces)
                (chunk\<lparr>ch_vertices := ch_vertices chunk @ vertices,
                   ch_faces := ch_faces chunk @ elementFaces,
                   ch_elementTable := ch_elementTable chunk @ [entry]\<rparr>)
                (snd converted))
      | _ \<Rightarrow> processElements rest vertexOffset faceOffset chunk idMapping)"

definition processChunkGeometry :: "CHDWriter \<Rightarrow> chunk \<Rightarrow> js_error + chunk \<times> CHDWriter" where
  "processChunkGeometry w chunk =
     (let processed = processElements (ch_elements chunk) 0 0 chunk (w_idMapping w)
      in case w_manifest w of
           None \<Rightarrow> Inl TypeError
         | Some m \<Rightarrow>
             Inr (fst processed,
               w\<lparr>w_idMapping := snd processed,
                 w_manifest := Some (m\<lparr>mf_statistics := (mf_statistics m)
                   \<lparr>total_vertices := total_vertices (mf_statistics m)
                        + length (ch_vertices (fst processed)),
                    total_faces := total_faces (mf_statistics m)
                        + length (ch_faces (fst processed))\<rparr>\<rparr>)\<rparr>))"

text \<open>
  \<open>CHDWriter.organizeElementsIntoChunks\<close>: \<^verbatim>\<open>for (let i = 0; i < elements.length; i += chunkSize)\<close>.
  With a chunk size of 0 and a non-empty list the loop never ends; the result is then
  \<open>None\<close>.
\<close>

partial_function (option) chunkLoop ::
  "element list \<Rightarrow> nat \<Rightarrow> CHDWriter \<Rightarrow> (js_error + CHDWriter) option" where
  "chunkLoop elements i w =
     (if i < length elements then
        (let chunkSize = opt_chunkSize (w_options w);
             chunkElements = take chunkSize (drop i elements);
             chunkId = padStart3 (showNat (i div chunkSize + 1));
             chunk = \<lparr>ch_id = chunkId, ch_elements = chunkElements, ch_vertices = [],
               ch_faces = [], ch_elementTable = []\<rparr>
         in case processChunkGeometry w chunk of
              Inl e \<Rightarrow> Some (Inl e)
            | Inr processed \<Rightarrow>
                chunkLoop elements (i + chunkSize)
                  ((snd processed)\<lparr>w_chunks := w_chunks (snd processed) @ [fst processed]\<rparr>))
      else Some (Inr w))"

declare chunkLoop.simps [code]

definition organizeElementsIntoChunks ::
  "CHDWriter \<Rightarrow> element list \<Rightarrow> (js_error + CHDWriter) option" where
  "organizeElementsIntoChunks w elements = chunkLoop elements 0 w"

text \<open>\<open>CHDWriter.processMaterials\<close> and \<open>CHDWriter.processProperties\<close>: the keys of the
  two maps, in insertion order.\<close>

definition processMaterials :: "CHDWriter \<Rightarrow> string list \<Rightarrow> CHDWriter" where
  "processMaterials w materials = w\<lparr>w_materials := foldl (\<lambda>ks k. setAdd k ks) (w_materials w) materials\<rparr>"

definition processProperties :: "CHDWriter \<Rightarrow> element list \<Rightarrow> CHDWriter" where
  "processProperties w elements =
     w\<lparr>w_properties := foldl (\<lambda>ks e. if el_properties e then setAdd (elementKey e) ks else ks)
          (w_properties w) elements\<rparr>"

text \<open>\<open>CHDWriter.processModelData\<close>\<close>

definition processModelData :: "CHDWriter \<Rightarrow> model \<Rightarrow> (js_error + CHDWriter) option" where
  "processModelData w model =
     (case m_elements model of
        ElementsMissing \<Rightarrow> Some (Inl ModelMustContainElementsArray)
      | ElementsNotArray \<Rightarrow> Some (Inl ModelMustContainElementsArray)
      | ElementsArray elements \<Rightarrow>
          (let manifest = \<lparr>mf_format = ''CHD'', mf_version = ''1.0'',
                 mf_bounding_box = calculateProjectBoundingBox elements,
                 mf_geometry_chunks = [], mf_attribute_files = [], mf_spatial_index = None,
                 mf_statistics = \<lparr>total_elements = length elements, total_vertices = 0,
                   total_faces = 0\<rparr>\<rparr>
           in case organizeElementsIntoChunks (w\<lparr>w_manifest := Some manifest\<rparr>) elements of
                None \<Rightarrow> None
              | Some (Inl e) \<Rightarrow> Some (Inl e)
              | Some (Inr w') \<Rightarrow>
                  Some (Inr (processProperties (processMaterials w' (m_materials model))
                    elements))))"

text \<open>\<open>CHDWriter.createGeometryChunkBinary\<close>, with the conversion each field undergoes.\<close>

definition f32Vec :: "(rat \<Rightarrow> rat) \<Rightarrow> vec3 \<Rightarrow> vec3" where
  "f32Vec f32 v = (case v of (x, y, z) \<Rightarrow> (f32 x, f32 y, f32 z))"

definition f32Box :: "(rat \<Rightarrow> rat) \<Rightarrow> bbox \<Rightarrow> bbox" where
  "f32Box f32 b = \<lparr>bb_min = f32Vec f32 (bb_min b), bb_max = f32Vec f32 (bb_max b)\<rparr>"

definition createGeometryChunkBinary ::
  "(rat \<Rightarrow> rat) \<Rightarrow> writer_options \<Rightarrow> chunk \<Rightarrow> chunk_file" where
  "createGeometryChunkBinary f32 options chunk =
     \<lparr>cf_header = \<lparr>h_version = 1,
        h_compression = (if opt_compression options = ''zlib'' then 1 else 0),
        h_elementCount = length (ch_elementTable chunk),
        h_vertexCount = length (ch_vertices chunk),
        h_faceCount = length (ch_faces chunk),
        h_boundingBox = f32Box f32 (calculateChunkBoundingBox (ch_vertices chunk))\<rparr>,
      cf_elementTable =
        map (\<lambda>e. \<lparr>ei_id = toUint32 (te_id e), ei_type = toUint16 (te_type e),
               ei_materialId = toUint16 (te_materialId e),
               ei_vertexOffset = te_vertexOffset e, ei_vertexCount = te_vertexCount e,
               ei_faceOffset = te_faceOffset e, ei_faceCount = te_faceCount e\<rparr>)
          (ch_elementTable chunk),
      cf_vertices = map (f32Vec f32) (ch_vertices chunk),
      cf_faces = map (\<lambda>(a, b, c). (toUint32 a, toUint32 b, toUint32 c)) (ch_faces chunk)\<rparr>"

text \<open>
  \<open>CHDWriter.writeGeometryChunks\<close>: for the chunk at position \<open>i\<close>, write its file, add
  it to the manifest's chunk index and report \<^verbatim>\<open>20 + (30 * (i + 1) / this.chunks.length)\<close>.
\<close>

fun writeChunksFrom :: "(rat \<Rightarrow> rat) \<Rightarrow> nat \<Rightarrow> chunk list \<Rightarrow> CHDWriter \<Rightarrow> js_error + CHDWriter" where
  "writeChunksFrom f32 i [] w = Inr w"
| "writeChunksFrom f32 i (chunk # rest) w =
     (case w_manifest w of
        None \<Rightarrow> Inl TypeError
      | Some m \<Rightarrow>
          (let chunkFile = ''geometry/'' @ ''chunk_'' @ ch_id chunk @ ''.bin'';
               written = w\<lparr>w_files := (w_files w)
                   (chunkFile \<mapsto> ChunkBin (createGeometryChunkBinary f32 (w_options w) chunk)),
                 w_manifest := Some (m\<lparr>mf_geometry_chunks := mf_geometry_chunks m
                   @ [\<lparr>ci_id = ch_id chunk, ci_file = chunkFile,
                       ci_elements = length (ch_elementTable chunk)\<rparr>]\<rparr>)\<rparr>
           in writeChunksFrom f32 (i + 1) rest
                (reportProgress written ''chunk''
                   (20 + (30 * (of_nat i + 1)) / of_nat (length (w_chunks w))))))"

definition writeGeometryChunks :: "(rat \<Rightarrow> rat) \<Rightarrow> CHDWriter \<Rightarrow> js_error + CHDWriter" where
  "writeGeometryChunks f32 w = writeChunksFrom f32 0 (w_chunks w) w"

text \<open>\<open>CHDWriter.writeAttributes\<close>: a file is written for a map that is not empty.\<close>

definition writeAttributeFile ::
  "string \<Rightarrow> string \<Rightarrow> jsval list \<Rightarrow> CHDWriter \<Rightarrow> js_error + CHDWriter" where
  "writeAttributeFile kind path keys w =
     (if keys = [] then Inr w
      else case w_manifest w of
        None \<Rightarrow> Inl TypeError
      | Some m \<Rightarrow>
          Inr (w\<lparr>w_files := (w_files w)(path \<mapsto> AttributesCbor keys),
                 w_manifest := Some (m\<lparr>mf_attribute_files := mf_attribute_files m
                   @ [\<lparr>ai_type = kind, ai_file = path, ai_count = length keys\<rparr>]\<rparr>)\<rparr>))"

definition writeAttributes :: "CHDWriter \<Rightarrow> js_error + CHDWriter" where
  "writeAttributes w =
     (case writeAttributeFile ''materials'' ''attributes/materials.cbor''
             (map JStr (w_materials w)) w of
        Inl e \<Rightarrow> Inl e
      | Inr w' \<Rightarrow>
          writeAttributeFile ''properties'' ''attributes/properties.cbor'' (w_properties w') w')"

text \<open>
  \<open>CHDWriter.createSpatialIndex\<close>: nothing without chunks; otherwise a header and one
  leaf record per chunk, the chunk at position \<open>i\<close> under node ID \<open>i + 1\<close> with parent 0
  and no children. \<^verbatim>\<open>writer.writeUInt32(chunk.id)\<close> stores the number that the chunk's
  ID string converts to.
\<close>

definition leafRecord :: "(rat \<Rightarrow> rat) \<Rightarrow> nat \<Rightarrow> chunk \<Rightarrow> node_record" where
  "leafRecord f32 i chunk =
     \<lparr>nr_id = toUint32 (int i + 1), nr_parentId = 0, nr_childCount = 0, nr_isLeaf = 1,
      nr_reserved = 0,
      nr_boundingBox = f32Box f32 (calculateChunkBoundingBox (ch_vertices chunk)),
      nr_childIds = [],
      nr_elementIds = map (\<lambda>e. toUint32 (te_id e)) (ch_elementTable chunk),
      nr_chunkId = (case stringToNumber (ch_id chunk) of None \<Rightarrow> 0 | Some n \<Rightarrow> toUint32 n)\<rparr>"

definition createSpatialIndex :: "(rat \<Rightarrow> rat) \<Rightarrow> CHDWriter \<Rightarrow> js_error + CHDWriter" where
  "createSpatialIndex f32 w =
     (if w_chunks w = [] then Inr w
      else case w_manifest w of
        None \<Rightarrow> Inl TypeError
      | Some m \<Rightarrow>
          (let index = \<lparr>if_version = 1, if_type = 1, if_maxDepth = 2,
                 if_nodeCount = length (w_chunks w), if_leafCount = length (w_chunks w),
                 if_boundingBox = f32Box f32 (mf_bounding_box m),
                 if_nodes = map (\<lambda>(i, chunk). leafRecord f32 i chunk)
                   (enumerate 0 (w_chunks w))\<rparr>
           in Inr (w\<lparr>w_files := (w_files w)(''spatial.idx'' \<mapsto> SpatialIdx index),
                    w_manifest := Some (m\<lparr>mf_spatial_index := Some
                      \<lparr>sx_file = ''spatial.idx'', sx_type = ''r_tree'', sx_levels = 2,
                       sx_nodes = length (w_chunks w)\<rparr>\<rparr>)\<rparr>)))"

text \<open>\<open>CHDWriter.writeManifest\<close>, \<open>writeRelations\<close> and \<open>getWriteStatistics\<close>\<close>

definition writeManifest :: "CHDWriter \<Rightarrow> js_error + CHDWriter" where
  "writeManifest w =
     (case w_manifest w of
        None \<Rightarrow> Inl TypeError
      | Some m \<Rightarrow> Inr (w\<lparr>w_files := (w_files w)(''manifest.json'' \<mapsto> ManifestJson m)\<rparr>))"

definition writeRelations :: "CHDWriter \<Rightarrow> CHDWriter" where
  "writeRelations w =
     w\<lparr>w_files := (w_files w)(''relations/hierarchy.json'' \<mapsto> RelationsJson,
          ''relations/references.json'' \<mapsto> RelationsJson)\<rparr>"

record write_statistics =
  ws_chunks :: nat
  ws_elements :: nat
  ws_vertices :: nat
  ws_faces :: nat
  ws_materials :: nat
  ws_properties :: nat

definition getWriteStatistics :: "CHDWriter \<Rightarrow> js_error + write_statistics" where
  "getWriteStatistics w =
     (case w_manifest w of
        None \<Rightarrow> Inl TypeError
      | Some m \<Rightarrow>
          Inr \<lparr>ws_chunks = length (w_chunks w),
               ws_elements = total_elements (mf_statistics m),
               ws_vertices = total_vertices (mf_statistics m),
               ws_faces = total_faces (mf_statistics m),
               ws_materials = length (w_materials w),
               ws_properties = length (w_properties w)\<rparr>)"

text \<open>
  \<open>CHDWriter.write\<close>. The result is \<open>None\<close> when the call does not return, the error
  thrown, or the value returned; each comes with the writer as the call leaves it (for a
  failure inside a stage: as the stage found it). Creating the output directories does
  not change the files. File-system operations are taken to succeed.
\<close>

record write_result =
  wr_success :: bool
  wr_statistics :: write_statistics

definition spatialIndexStep :: "(rat \<Rightarrow> rat) \<Rightarrow> CHDWriter \<Rightarrow> js_error + CHDWriter" where
  "spatialIndexStep f32 w =
     (if opt_createSpatialIndex (w_options w)
      then (case createSpatialIndex f32 w of
              Inl e \<Rightarrow> Inl e
            | Inr w' \<Rightarrow> Inr (reportProgress w' ''spatial_index'' 85))
      else Inr w)"

definition afterModelData ::
  "(rat \<Rightarrow> rat) \<Rightarrow> CHDWriter \<Rightarrow> (js_error \<times> CHDWriter) + (write_result \<times> CHDWriter)" where
  "afterModelData f32 w2 =
     (let p2 = reportProgress w2 ''process'' 20
      in case writeGeometryChunks f32 p2 of
        Inl e \<Rightarrow> Inl (WritingFailed e, p2)
      | Inr w3 \<Rightarrow>
     (let p3 = reportProgress w3 ''geometry'' 50
      in case writeAttributes p3 of
        Inl e \<Rightarrow> Inl (WritingFailed e, p3)
      | Inr w4 \<Rightarrow>
     (let p4 = reportProgress w4 ''attributes'' 70
      in case spatialIndexStep f32 p4 of
        Inl e \<Rightarrow> Inl (WritingFailed e, p4)
      | Inr p5 \<Rightarrow>
     (case writeManifest p5 of
        Inl e \<Rightarrow> Inl (WritingFailed e, p5)
      | Inr w6 \<Rightarrow>
     (let p6 = reportProgress w6 ''manifest'' 95;
          p7 = reportProgress (writeRelations p6) ''complete'' 100
      in case getWriteStatistics p7 of
           Inl e \<Rightarrow> Inl (WritingFailed e, p7)
         | Inr stats \<Rightarrow> Inr (\<lparr>wr_success = True, wr_statistics = stats\<rparr>, p7))))))"

definition CHDWriter_write ::
  "(rat \<Rightarrow> rat) \<Rightarrow> CHDWriter \<Rightarrow> model
     \<Rightarrow> ((js_error \<times> CHDWriter) + (write_result \<times> CHDWriter)) option" where
  "CHDWriter_write f32 w model =
     (let w1 = reportProgress w ''prepare'' 5
      in case processModelData w1 model of
           None \<Rightarrow> None
         | Some (Inl e) \<Rightarrow> Some (Inl (WritingFailed e, w1))
         | Some (Inr w2) \<Rightarrow> Some (afterModelData f32 w2))"

section \<open>The reader's geometry chunk: \<open>GeometryChunk\<close>\<close>

text \<open>
  A parsed element and the chunk object. \<open>gc_elements\<close> is the object \<open>this.elements\<close>,
  keyed by element ID: an association list in which an assignment to a key that is
  present replaces its value. \<open>Object.values\<close> lists an object with integer keys in
  ascending key order.
\<close>

record chunk_element =
  ce_id :: int
  ce_type :: string
  ce_materialId :: int
  ce_vertices :: "vec3 list"
  ce_faces :: "face list"
  ce_boundingBox :: bbox

record GeometryChunk =
  gc_header :: "chunk_header option"
  gc_elements :: "(int \<times> chunk_element) list"
  gc_vertices :: "vec3 list option"
  gc_faces :: "face list option"
  gc_elementTable :: "element_info list"

definition newGeometryChunk :: GeometryChunk where
  "newGeometryChunk = \<lparr>gc_header = None, gc_elements = [], gc_vertices = None,
     gc_faces = None, gc_elementTable = []\<rparr>"

definition Object_values :: "(int \<times> 'a) list \<Rightarrow> 'a list" where
  "Object_values obj = map snd (sort_key fst obj)"

definition typeNames :: "(int \<times> string) list" where
  "typeNames = [(1, ''wall''), (2, ''slab''), (3, ''beam''), (4, ''column''), (5, ''door''),
     (6, ''window''), (7, ''roof''), (8, ''stair''), (9, ''railing''), (10, ''furniture''),
     (99, ''generic'')]"

definition getElementTypeName :: "int \<Rightarrow> string" where
  "getElementTypeName t = (case map_of typeNames t of None \<Rightarrow> ''unknown'' | Some name \<Rightarrow> name)"

definition calculateElementBoundingBox :: "vec3 list \<Rightarrow> bbox" where
  "calculateElementBoundingBox vertices =
     (case vertices of
        [] \<Rightarrow> zeroBox
      | v # rest \<Rightarrow> foldl expandBox \<lparr>bb_min = v, bb_max = v\<rparr> rest)"

text \<open>\<open>GeometryChunk.organizeGeometryData\<close>: \<open>xs.slice(a, a + n)\<close> is \<open>take n (drop a xs)\<close>.\<close>

definition organizeElement :: "vec3 list \<Rightarrow> face list \<Rightarrow> element_info \<Rightarrow> chunk_element" where
  "organizeElement vertices faces elementInfo =
     (let elementVertices =
            take (ei_vertexCount elementInfo) (drop (ei_vertexOffset elementInfo) vertices)
      in \<lparr>ce_id = ei_id elementInfo,
          ce_type = getElementTypeName (ei_type elementInfo),
          ce_materialId = ei_materialId elementInfo,
          ce_vertices = elementVertices,
          ce_faces =
            map (\<lambda>(a, b, c). (a - int (ei_vertexOffset elementInfo),
                   b - int (ei_vertexOffset elementInfo),
                   c - int (ei_vertexOffset elementInfo)))
              (take (ei_faceCount elementInfo) (drop (ei_faceOffset elementInfo) faces)),
          ce_boundingBox = calculateElementBoundingBox elementVertices\<rparr>)"

definition organizeGeometryData ::
  "element_info list \<Rightarrow> vec3 list \<Rightarrow> face list \<Rightarrow> (int \<times> chunk_element) list" where
  "organizeGeometryData elementTable vertices faces =
     foldl (\<lambda>elements elementInfo.
              AList.update (ei_id elementInfo) (organizeElement vertices faces elementInfo)
                elements)
       [] elementTable"

text \<open>
  \<open>GeometryChunk.parseFromBinary\<close> on the fields of a chunk file: the header with its
  version check, as many table records, vertices and faces as the header counts (a file
  that holds fewer ends before the read does), and the check of the compression kind.
\<close>

definition parseFromBinary :: "chunk_file \<Rightarrow> js_error + GeometryChunk" where
  "parseFromBinary f =
     (let header = cf_header f in
      if h_version header \<noteq> 1
        then Inl (FailedToParseChunk (UnsupportedChunkVersion (h_version header)))
      else if length (cf_elementTable f) < h_elementCount header
        then Inl (FailedToParseChunk ReadPastEnd)
      else if h_compression header \<noteq> 0 \<and> h_compression header \<noteq> 1
        then Inl (FailedToParseChunk (UnsupportedCompression (h_compression header)))
      else if length (cf_vertices f) < h_vertexCount header
              \<or> length (cf_faces f) < h_faceCount header
        then Inl (FailedToParseChunk ReadPastEnd)
      else
        (let elementTable = take (h_elementCount header) (cf_elementTable f);
             vertices = take (h_vertexCount header) (cf_vertices f);
             faces = take (h_faceCount header) (cf_faces f)
         in Inr \<lparr>gc_header = Some header,
                  gc_elements = organizeGeometryData elementTable vertices faces,
                  gc_vertices = Some vertices, gc_faces = Some faces,
                  gc_elementTable = elementTable\<rparr>))"

text \<open>
  \<open>GeometryChunk.validate\<close>. The two messages are
  \<^verbatim>\<open>Face ${i} references invalid vertex index: ${vertexIndex}\<close> and
  \<^verbatim>\<open>Element ${element.id} face ${i} references invalid vertex index: ${vertexIndex}\<close>.
  \<open>invalidRefs n faces\<close> lists, in the order of the two nested loops, the face number
  and the index of every index that is at least \<open>n\<close>.
\<close>

datatype validation_error =
  FaceInvalidIndex nat int
| ElementFaceInvalidIndex int nat int

record validation_result =
  vr_isValid :: bool
  vr_errors :: "validation_error list"

definition invalidRefs :: "nat \<Rightarrow> face list \<Rightarrow> (nat \<times> int) list" where
  "invalidRefs n faces =
     concat (map (\<lambda>(i, (a, b, c)). map (Pair i) (filter (\<lambda>vertexIndex. int n \<le> vertexIndex) [a, b, c]))
       (enumerate 0 faces))"

definition validate :: "GeometryChunk \<Rightarrow> validation_result" where
  "validate chunk =
     (let chunkErrors =
            (case (gc_faces chunk, gc_vertices chunk) of
               (Some faces, Some vertices) \<Rightarrow>
                 map (\<lambda>(i, vertexIndex). FaceInvalidIndex i vertexIndex)
                   (invalidRefs (length vertices) faces)
             | _ \<Rightarrow> []);
          elementErrors =
            concat (map (\<lambda>element.
                map (\<lambda>(i, vertexIndex). ElementFaceInvalidIndex (ce_id element) i vertexIndex)
                  (invalidRefs (length (ce_vertices element)) (ce_faces element)))
              (Object_values (gc_elements chunk)));
          errors = chunkErrors @ elementErrors
      in \<lparr>vr_isValid = (errors = []), vr_errors = errors\<rparr>)"

section \<open>The spatial index: \<open>SpatialIndex\<close>\<close>

record node =
  n_id :: int
  n_parentId :: int
  n_childCount :: nat
  n_isLeaf :: bool
  n_reserved :: int
  n_boundingBox :: bbox
  n_childIds :: "int list"
  n_elementIds :: "int list"
  n_chunkId :: "int option"

record SpatialIndex =
  si_type :: jsval
  si_maxDepth :: int
  si_nodeCount :: nat
  si_leafCount :: nat
  si_boundingBox :: "bbox option"
  si_nodes :: "int \<rightharpoonup> node"
  si_elementToChunk :: "int \<rightharpoonup> int"

definition newSpatialIndex :: SpatialIndex where
  "newSpatialIndex = \<lparr>si_type = JStr ''r_tree'', si_maxDepth = 0, si_nodeCount = 0,
     si_leafCount = 0, si_boundingBox = None, si_nodes = Map.empty,
     si_elementToChunk = Map.empty\<rparr>"

text \<open>\<open>SpatialIndex.parseNode\<close>: the element IDs and the chunk ID are read for a leaf only.\<close>

definition parseNode :: "node_record \<Rightarrow> node" where
  "parseNode r =
     \<lparr>n_id = nr_id r, n_parentId = nr_parentId r, n_childCount = nr_childCount r,
      n_isLeaf = (nr_isLeaf r = 1), n_reserved = nr_reserved r,
      n_boundingBox = nr_boundingBox r, n_childIds = nr_childIds r,
      n_elementIds = (if nr_isLeaf r = 1 then nr_elementIds r else []),
      n_chunkId = (if nr_isLeaf r = 1 then Some (nr_chunkId r) else None)\<rparr>"

text \<open>One turn of the loop of \<open>SpatialIndex.parseNodes\<close>.\<close>

definition addNode :: "SpatialIndex \<Rightarrow> node_record \<Rightarrow> SpatialIndex" where
  "addNode idx r =
     (let node = parseNode r;
          idx' = idx\<lparr>si_nodes := (si_nodes idx)(n_id node \<mapsto> node)\<rparr>
      in case n_chunkId node of
           None \<Rightarrow> idx'
         | Some chunkId \<Rightarrow>
             if n_isLeaf node
             then idx'\<lparr>si_elementToChunk :=
                    foldl (\<lambda>m elementId. m(elementId \<mapsto> chunkId)) (si_elementToChunk idx')
                      (n_elementIds node)\<rparr>
             else idx')"

text \<open>\<open>SpatialIndex.loadFromBinary\<close>: the header's version check, then \<open>nodeCount\<close> nodes.\<close>

definition loadFromBinary :: "SpatialIndex \<Rightarrow> index_file \<Rightarrow> js_error + SpatialIndex" where
  "loadFromBinary idx f =
     (if if_version f \<noteq> 1
        then Inl (FailedToLoadSpatialIndex (UnsupportedIndexVersion (if_version f)))
      else if length (if_nodes f) < if_nodeCount f
        then Inl (FailedToLoadSpatialIndex ReadPastEnd)
      else Inr (foldl addNode
             (idx\<lparr>si_type := JNum (if_type f), si_maxDepth := if_maxDepth f,
                 si_nodeCount := if_nodeCount f, si_leafCount := if_leafCount f,
                 si_boundingBox := Some (if_boundingBox f)\<rparr>)
             (take (if_nodeCount f) (if_nodes f))))"

definition boundingBoxIntersects :: "bbox \<Rightarrow> bbox \<Rightarrow> bool" where
  "boundingBoxIntersects box1 box2 =
     (case (bb_min box1, bb_max box1, bb_min box2, bb_max box2) of
        ((min1x, min1y, min1z), (max1x, max1y, max1z),
         (min2x, min2y, min2z), (max2x, max2y, max2z)) \<Rightarrow>
          min1x \<le> max2x \<and> max1x \<ge> min2x \<and>
          min1y \<le> max2y \<and> max1y \<ge> min2y \<and>
          min1z \<le> max2z \<and> max1z \<ge> min2z)"

text \<open>
  \<open>SpatialIndex.queryNode\<close> recurses into the children of a node, and nothing in a loaded
  index bounds the depth (a node can list itself as a child). The first argument is the
  number of nested calls allowed; \<open>None\<close> says that the recursion went deeper.
  \<open>results\<close> is the \<open>Set\<close> of element IDs, in insertion order.
\<close>

fun queryNode :: "nat \<Rightarrow> SpatialIndex \<Rightarrow> int \<Rightarrow> bbox \<Rightarrow> int list \<Rightarrow> int list option" where
  "queryNode 0 idx nodeId queryBox results = None"
| "queryNode (Suc fuel) idx nodeId queryBox results =
     (case si_nodes idx nodeId of
        None \<Rightarrow> Some results
      | Some node \<Rightarrow>
          if \<not> boundingBoxIntersects (n_boundingBox node) queryBox then Some results
          else if n_isLeaf node
            then Some (foldl (\<lambda>res elementId. setAdd elementId res) results (n_elementIds node))
          else foldl (\<lambda>acc childId.
                        case acc of
                          None \<Rightarrow> None
                        | Some res \<Rightarrow> queryNode fuel idx childId queryBox res)
                 (Some results) (n_childIds node))"

definition queryBounds ::
  "nat \<Rightarrow> SpatialIndex \<Rightarrow> rat \<Rightarrow> rat \<Rightarrow> rat \<Rightarrow> rat \<Rightarrow> rat \<Rightarrow> rat \<Rightarrow> int list option" where
  "queryBounds fuel idx minX minY minZ maxX maxY maxZ =
     queryNode fuel idx 1 \<lparr>bb_min = (minX, minY, minZ), bb_max = (maxX, maxY, maxZ)\<rparr> []"

definition findChunkForElement :: "SpatialIndex \<Rightarrow> int \<Rightarrow> int option" where
  "findChunkForElement idx elementId = si_elementToChunk idx elementId"

section \<open>The reader: \<open>CHDParser\<close>\<close>

text \<open>
  The reader's state. \<open>p_basePath\<close> is the container found at the path being parsed;
  \<open>p_loadedChunks\<close> is the \<open>Map\<close> of loaded chunks, whose keys are the chunk IDs given
  to \<open>set\<close>: the strings of the manifest when all chunks are loaded, the number found in
  the spatial index when one chunk is loaded on demand. The reader's own progress
  callback is not modelled.
\<close>

record parser_options =
  po_loadGeometry :: bool
  po_loadAttributes :: bool
  po_loadSpatialIndex :: bool

record CHDParser =
  p_options :: parser_options
  p_manifest :: "manifest option"
  p_basePath :: container
  p_loadedChunks :: "(jsval \<times> GeometryChunk) list"
  p_spatialIndex :: "SpatialIndex option"

definition newCHDParser :: "parser_options \<Rightarrow> CHDParser" where
  "newCHDParser options = \<lparr>p_options = options, p_manifest = None, p_basePath = Map.empty,
     p_loadedChunks = [], p_spatialIndex = None\<rparr>"

definition isVersionSupported :: "string \<Rightarrow> bool" where
  "isVersionSupported version = (version \<in> set [''1.0''])"

text \<open>\<open>CHDParser.loadManifest\<close>\<close>

definition loadManifest :: "CHDParser \<Rightarrow> js_error + manifest" where
  "loadManifest p =
     (case p_basePath p ''manifest.json'' of
        None \<Rightarrow> Inl ManifestNotFound
      | Some (ManifestJson manifest) \<Rightarrow>
          if mf_format manifest \<noteq> ''CHD'' then Inl InvalidFormat
          else if mf_version manifest = [] \<or> \<not> isVersionSupported (mf_version manifest)
            then Inl (UnsupportedVersion (mf_version manifest))
          else Inr manifest
      | Some _ \<Rightarrow> Inl (FileReadFailed ''manifest.json''))"

text \<open>\<open>CHDParser.loadSpatialIndex\<close>: a failure to read or load the index is caught and
  gives \<open>null\<close>.\<close>

definition loadSpatialIndex :: "CHDParser \<Rightarrow> js_error + SpatialIndex option" where
  "loadSpatialIndex p =
     (case p_manifest p of
        None \<Rightarrow> Inl TypeError
      | Some manifest \<Rightarrow>
          (case mf_spatial_index manifest of
             None \<Rightarrow> Inr None
           | Some info \<Rightarrow>
               (case p_basePath p (sx_file info) of
                  Some (SpatialIdx indexData) \<Rightarrow>
                    (case loadFromBinary newSpatialIndex indexData of
                       Inl e \<Rightarrow> Inr None
                     | Inr spatialIndex \<Rightarrow> Inr (Some spatialIndex))
                | _ \<Rightarrow> Inr None)))"

text \<open>\<open>CHDParser.loadGeometryChunks\<close>: a chunk that cannot be read or parsed is skipped.
  The result is the object \<open>geometryData\<close> and the reader with its chunk cache filled.\<close>

definition loadChunk ::
  "(string \<times> GeometryChunk) list \<times> CHDParser \<Rightarrow> chunk_info
     \<Rightarrow> (string \<times> GeometryChunk) list \<times> CHDParser" where
  "loadChunk acc chunkInfo =
     (case p_basePath (snd acc) (ci_file chunkInfo) of
        Some (ChunkBin chunkData) \<Rightarrow>
          (case parseFromBinary chunkData of
             Inl e \<Rightarrow> acc
           | Inr parsedChunk \<Rightarrow>
               (AList.update (ci_id chunkInfo) parsedChunk (fst acc),
                (snd acc)\<lparr>p_loadedChunks :=
                   AList.update (JStr (ci_id chunkInfo)) parsedChunk
                     (p_loadedChunks (snd acc))\<rparr>))
      | _ \<Rightarrow> acc)"

definition loadGeometryChunks ::
  "CHDParser \<Rightarrow> js_error + (string \<times> GeometryChunk) list \<times> CHDParser" where
  "loadGeometryChunks p =
     (case p_manifest p of
        None \<Rightarrow> Inl TypeError
      | Some manifest \<Rightarrow> Inr (foldl loadChunk ([], p) (mf_geometry_chunks manifest)))"

text \<open>\<open>CHDParser.loadAttributes\<close>: the decoded attribute files by their type; a file
  that cannot be read is skipped.\<close>

definition loadAttributes :: "CHDParser \<Rightarrow> js_error + (string \<times> jsval list) list" where
  "loadAttributes p =
     (case p_manifest p of
        None \<Rightarrow> Inl TypeError
      | Some manifest \<Rightarrow>
          Inr (foldl (\<lambda>attributeData fileInfo.
                 case p_basePath p (ai_file fileInfo) of
                   Some (AttributesCbor keys) \<Rightarrow>
                     AList.update (ai_type fileInfo) keys attributeData
                 | _ \<Rightarrow> attributeData)
               [] (mf_attribute_files manifest)))"

text \<open>
  \<open>CHDParser.assembleModel\<close>. The keys of the decoded property object are strings; each
  is hashed again, and \<open>pm_attributes\<close> maps the number to the key it came from.
\<close>

record parsed_model =
  pm_format :: string
  pm_version :: string
  pm_statistics :: statistics
  pm_spatialIndex :: "SpatialIndex option"
  pm_geometry :: "(string \<times> GeometryChunk) list"
  pm_attributes :: "(int \<times> string) list"

definition assembleModel ::
  "CHDParser \<Rightarrow> (string \<times> GeometryChunk) list option \<Rightarrow> (string \<times> jsval list) list option
     \<Rightarrow> js_error + parsed_model" where
  "assembleModel p geometryData attributeData =
     (let originalAttributes =
            (case attributeData of
               None \<Rightarrow> []
             | Some files \<Rightarrow> (case map_of files ''properties'' of None \<Rightarrow> [] | Some keys \<Rightarrow> keys));
          flattenedAttributes =
            foldl (\<lambda>attrs key.
                     AList.update (CHDParser_convertToNumericId (JStr (jsToString key)))
                       (jsToString key) attrs)
              [] originalAttributes
      in case p_manifest p of
           None \<Rightarrow> Inl TypeError
         | Some manifest \<Rightarrow>
             Inr \<lparr>pm_format = ''CHD'', pm_version = mf_version manifest,
                  pm_statistics = mf_statistics manifest,
                  pm_spatialIndex = p_spatialIndex p,
                  pm_geometry = (case geometryData of None \<Rightarrow> [] | Some g \<Rightarrow> g),
                  pm_attributes = flattenedAttributes\<rparr>)"

text \<open>
  \<open>CHDParser.parse\<close>, given the container at the path. An error inside the \<open>try\<close> is
  rethrown as \<^verbatim>\<open>CHD parsing failed: ...\<close>. The result comes with the reader as the call
  leaves it.
\<close>

definition afterManifest :: "CHDParser \<Rightarrow> (js_error + parsed_model) \<times> CHDParser" where
  "afterManifest p1 =
     (case (if po_loadSpatialIndex (p_options p1)
            then (case loadSpatialIndex p1 of
                    Inl e \<Rightarrow> Inl e
                  | Inr spatialIndex \<Rightarrow> Inr (p1\<lparr>p_spatialIndex := spatialIndex\<rparr>))
            else Inr p1) of
        Inl e \<Rightarrow> (Inl (ParsingFailed e), p1)
      | Inr p2 \<Rightarrow>
     (case (if po_loadGeometry (p_options p2)
            then (case loadGeometryChunks p2 of
                    Inl e \<Rightarrow> Inl e
                  | Inr loaded \<Rightarrow> Inr (Some (fst loaded), snd loaded))
            else Inr (None, p2)) of
        Inl e \<Rightarrow> (Inl (ParsingFailed e), p2)
      | Inr (geometryData, p3) \<Rightarrow>
     (case (if po_loadAttributes (p_options p3)
            then (case loadAttributes p3 of
                    Inl e \<Rightarrow> Inl e
                  | Inr attributeData \<Rightarrow> Inr (Some attributeData))
            else Inr None) of
        Inl e \<Rightarrow> (Inl (ParsingFailed e), p3)
      | Inr attributeData \<Rightarrow>
     (case assembleModel p3 geometryData attributeData of
        Inl e \<Rightarrow> (Inl (ParsingFailed e), p3)
      | Inr model \<Rightarrow> (Inr model, p3)))))"

definition parse :: "CHDParser \<Rightarrow> container \<Rightarrow> (js_error + parsed_model) \<times> CHDParser" where
  "parse p files =
     (let p0 = p\<lparr>p_basePath := files\<rparr>
      in case loadManifest p0 of
           Inl e \<Rightarrow> (Inl (ParsingFailed e), p0)
         | Inr manifest \<Rightarrow> afterManifest (p0\<lparr>p_manifest := Some manifest\<rparr>))"

text \<open>
  \<open>CHDParser.loadSpecificChunk\<close>. The manifest's chunk IDs are strings; \<open>find\<close> compares
  them to the argument with \<open>===\<close>.
\<close>

definition loadSpecificChunk :: "CHDParser \<Rightarrow> jsval \<Rightarrow> (js_error + GeometryChunk) \<times> CHDParser" where
  "loadSpecificChunk p chunkId =
     (case p_manifest p of
        None \<Rightarrow> (Inl TypeError, p)
      | Some manifest \<Rightarrow>
          (case find (\<lambda>c. JStr (ci_id c) = chunkId) (mf_geometry_chunks manifest) of
             None \<Rightarrow> (Inl (ChunkNotFoundInManifest chunkId), p)
           | Some chunkInfo \<Rightarrow>
               (case p_basePath p (ci_file chunkInfo) of
                  Some (ChunkBin chunkData) \<Rightarrow>
                    (case parseFromBinary chunkData of
                       Inl e \<Rightarrow> (Inl e, p)
                     | Inr parsedChunk \<Rightarrow>
                         (Inr parsedChunk,
                          p\<lparr>p_loadedChunks :=
                              AList.update chunkId parsedChunk (p_loadedChunks p)\<rparr>))
                | _ \<Rightarrow> (Inl (FileReadFailed (ci_file chunkInfo)), p))))"

text \<open>
  \<open>CHDParser.getElement\<close>, for a numeric element ID: first the loaded chunks in the
  order of the \<open>Map\<close>, then the spatial index and a load on demand. The result is the
  error thrown, or the element or \<open>null\<close>.
\<close>

fun findLoaded :: "(jsval \<times> GeometryChunk) list \<Rightarrow> int \<Rightarrow> chunk_element option" where
  "findLoaded [] elementId = None"
| "findLoaded ((chunkId, chunk) # rest) elementId =
     (case map_of (gc_elements chunk) elementId of
        Some element \<Rightarrow> Some element
      | None \<Rightarrow> findLoaded rest elementId)"

definition getElement :: "CHDParser \<Rightarrow> int \<Rightarrow> (js_error + chunk_element option) \<times> CHDParser" where
  "getElement p elementId =
     (case findLoaded (p_loadedChunks p) elementId of
        Some element \<Rightarrow> (Inr (Some element), p)
      | None \<Rightarrow>
          (case p_spatialIndex p of
             None \<Rightarrow> (Inr None, p)
           | Some spatialIndex \<Rightarrow>
               (case findChunkForElement spatialIndex elementId of
                  None \<Rightarrow> (Inr None, p)
                | Some chunkId \<Rightarrow>
                    if chunkId \<noteq> 0 \<and> map_of (p_loadedChunks p) (JNum chunkId) = None
                    then (case loadSpecificChunk p (JNum chunkId) of
                            (Inl e, p') \<Rightarrow> (Inl e, p')
                          | (Inr parsedChunk, p') \<Rightarrow>
                              (case map_of (p_loadedChunks p') (JNum chunkId) of
                                 None \<Rightarrow> (Inr None, p')
                               | Some chunk \<Rightarrow>
                                   (Inr (map_of (gc_elements chunk) elementId), p')))
                    else (Inr None, p))))"

text \<open>
  \<open>CHDParser.queryByBounds\<close>; the first argument bounds the recursion of the index query
  as in \<open>queryNode\<close>, and \<open>None\<close> says that the query did not return.
\<close>

fun collectElements ::
  "int list \<Rightarrow> CHDParser \<Rightarrow> chunk_element list \<Rightarrow> (js_error + chunk_element list) \<times> CHDParser" where
  "collectElements [] p elements = (Inr elements, p)"
| "collectElements (elementId # rest) p elements =
     (case getElement p elementId of
        (Inl e, p') \<Rightarrow> (Inl e, p')
      | (Inr None, p') \<Rightarrow> collectElements rest p' elements
      | (Inr (Some element), p') \<Rightarrow> collectElements rest p' (elements @ [element]))"

definition queryByBounds ::
  "nat \<Rightarrow> CHDParser \<Rightarrow> rat \<Rightarrow> rat \<Rightarrow> rat \<Rightarrow> rat \<Rightarrow> rat \<Rightarrow> rat
     \<Rightarrow> ((js_error + chunk_element list) \<times> CHDParser) option" where
  "queryByBounds fuel p minX minY minZ maxX maxY maxZ =
     (case p_spatialIndex p of
        None \<Rightarrow> Some (Inl SpatialIndexNotLoaded, p)
      | Some spatialIndex \<Rightarrow>
          (case queryBounds fuel spatialIndex minX minY minZ maxX maxY maxZ of
             None \<Rightarrow> None
           | Some elementIds \<Rightarrow> Some (collectElements elementIds p [])))"

text \<open>\<open>CHDParser.getStatistics\<close>: the manifest's statistics with two fields added.\<close>

record parser_statistics =
  ps_total_elements :: nat
  ps_total_vertices :: nat
  ps_total_faces :: nat
  ps_chunksLoaded :: nat
  ps_spatialIndexLoaded :: bool

definition getStatistics :: "CHDParser \<Rightarrow> js_error + parser_statistics" where
  "getStatistics p =
     (case p_manifest p of
        None \<Rightarrow> Inl TypeError
      | Some manifest \<Rightarrow>
          Inr \<lparr>ps_total_elements = total_elements (mf_statistics manifest),
               ps_total_vertices = total_vertices (mf_statistics manifest),
               ps_total_faces = total_faces (mf_statistics manifest),
               ps_chunksLoaded = length (p_loadedChunks p),
               ps_spatialIndexLoaded = (p_spatialIndex p \<noteq> None)\<rparr>)"

section \<open>Observing a call, and a worked container\<close>

text \<open>What a call of \<open>write\<close> returned or threw, and the files it left behind.\<close>

definition writeOutcome ::
  "((js_error \<times> CHDWriter) + (write_result \<times> CHDWriter)) option
     \<Rightarrow> (js_error + write_result) option" where
  "writeOutcome r = map_option (map_sum fst fst) r"

definition writtenFiles ::
  "((js_error \<times> CHDWriter) + (write_result \<times> CHDWriter)) option \<Rightarrow> container" where
  "writtenFiles r =
     (case r of
        None \<Rightarrow> Map.empty
      | Some (Inl (e, w')) \<Rightarrow> w_files w'
      | Some (Inr (res, w')) \<Rightarrow> w_files w')"

text \<open>The format tag, the version and the statistics of the writer's manifest, if it
  has one.\<close>

definition manifestCore :: "CHDWriter \<Rightarrow> (string \<times> string \<times> statistics) option" where
  "manifestCore w =
     map_option (\<lambda>m. (mf_format m, mf_version m, mf_statistics m)) (w_manifest w)"

text \<open>What the chunking loop leaves as it is: the options, the progress log, the files,
  and the manifest's format tag, version and element count.\<close>

definition chunkingKeeps :: "CHDWriter \<Rightarrow> CHDWriter \<Rightarrow> bool" where
  "chunkingKeeps w w' =
     (w_options w' = w_options w \<and> w_progress w' = w_progress w \<and> w_files w' = w_files w
      \<and> map_option (\<lambda>(fmt, ver, st). (fmt, ver, total_elements st)) (manifestCore w')
          = map_option (\<lambda>(fmt, ver, st). (fmt, ver, total_elements st)) (manifestCore w))"

text \<open>The event that \<open>reportProgress\<close> passes to the callback.\<close>

definition progressEvent :: "string \<Rightarrow> rat \<Rightarrow> progress_event" where
  "progressEvent stage percentage =
     \<lparr>pe_stage = stage, pe_percentage = mathRound percentage\<rparr>"

text \<open>
  A model of three small elements with the string IDs \<open>a\<close>, \<open>b\<close> and \<open>c\<close> (surrogates
  97, 98 and 99), one triangle each, placed at \<open>x = 0\<close>, \<open>10\<close> and \<open>20\<close>. Written with a
  chunk size of 2 it gives two chunks: \<open>001\<close> with \<open>a\<close> and \<open>b\<close>, \<open>002\<close> with \<open>c\<close>.
  All coordinates are small integers, which binary32 holds exactly, so the rounding is
  the identity here.
\<close>

definition exampleElement :: "string \<Rightarrow> rat \<Rightarrow> element" where
  "exampleElement name x =
     \<lparr>el_id = Some (JStr name), el_index = None, el_type = None, el_materialId = None,
      el_vertices = Some [(x, 0, 0), (x + 1, 1, 1), (x + 1, 0, 0)],
      el_faces = Some [(0, 1, 2)], el_properties = False\<rparr>"

definition exampleModel :: model where
  "exampleModel =
     \<lparr>m_elements = ElementsArray
        [exampleElement ''a'' 0, exampleElement ''b'' 10, exampleElement ''c'' 20],
      m_materials = []\<rparr>"

definition exampleOptions :: writer_options where
  "exampleOptions = \<lparr>opt_compression = ''none'', opt_chunkSize = 2,
     opt_createSpatialIndex = True, opt_progressCallback = True\<rparr>"

definition exampleWrite ::
  "((js_error \<times> CHDWriter) + (write_result \<times> CHDWriter)) option" where
  "exampleWrite = CHDWriter_write (\<lambda>x. x) (newCHDWriter exampleOptions Map.empty) exampleModel"

text \<open>The reader after \<open>parse\<close> of that container, with or without loading the geometry.\<close>

definition exampleParser :: "bool \<Rightarrow> CHDParser" where
  "exampleParser loadGeometry =
     snd (parse (newCHDParser \<lparr>po_loadGeometry = loadGeometry, po_loadAttributes = True,
            po_loadSpatialIndex = True\<rparr>)
          (writtenFiles exampleWrite))"

text \<open>The writer after \<open>processModelData\<close> of the elements \<open>a\<close> and \<open>b\<close>, which share the
  single chunk \<open>001\<close>.\<close>

definition exampleProcessed :: CHDWriter where
  "exampleProcessed =
     (case processModelData (newCHDWriter exampleOptions Map.empty)
             \<lparr>m_elements = ElementsArray [exampleElement ''a'' 0, exampleElement ''b'' 10],
              m_materials = []\<rparr> of
        Some (Inr w) \<Rightarrow> w
      | _ \<Rightarrow> newCHDWriter exampleOptions Map.empty)"

text \<open>
  A model of one element: the eight corners of the unit cube and two faces, the second
  of which refers to vertex index 99.
\<close>

definition brokenCube :: element where
  "brokenCube =
     \<lparr>el_id = Some (JStr ''a''), el_index = None, el_type = None, el_materialId = None,
      el_vertices = Some [(0, 0, 0), (1, 0, 0), (1, 1, 0), (0, 1, 0),
                          (0, 0, 1), (1, 0, 1), (1, 1, 1), (0, 1, 1)],
      el_faces = Some [(0, 1, 2), (2, 3, 99)], el_properties = False\<rparr>"

definition brokenCubeParser :: CHDParser where
  "brokenCubeParser =
     snd (parse (newCHDParser \<lparr>po_loadGeometry = True, po_loadAttributes = True,
            po_loadSpatialIndex = True\<rparr>)
          (writtenFiles (CHDWriter_write (\<lambda>x. x) (newCHDWriter exampleOptions Map.empty)
             \<lparr>m_elements = ElementsArray [brokenCube], m_materials = []\<rparr>)))"

text \<open>A face whose three indices \<open>writeUInt32\<close> stores as they are.\<close>

definition uint32Face :: "face \<Rightarrow> bool" where
  "uint32Face f =
     (case f of (a, b, c) \<Rightarrow> 0 \<le> a \<and> a < 2 ^ 32 \<and> 0 \<le> b \<and> b < 2 ^ 32 \<and> 0 \<le> c \<and> c < 2 ^ 32)"

section \<open>Properties of the surrogate IDs\<close>

lemma writerHash_parserHash: "writerHash h s = parserHash h s"
  by (induction s arbitrary: h) simp_all

text \<open>
  Claim C3. For every string \<open>s\<close> (in particular every ASCII string of length at least 1)
  the writer's and the reader's \<open>convertToNumericId\<close> return the same number, and that
  number is not negative.
\<close>

theorem convertToNumericId_writer_eq_parser:
  "fst (CHDWriter_convertToNumericId idMapping (JStr s)) = CHDParser_convertToNumericId (JStr s)
   \<and> 0 \<le> CHDParser_convertToNumericId (JStr s)"
  by (simp add: CHDWriter_convertToNumericId_def CHDParser_convertToNumericId_def
      writerHash_parserHash Let_def)

text \<open>
  Claim C10. A numeric ID is returned unchanged by both functions, and the writer leaves
  its ID-mapping table as it was; nothing bounds the result: a negative ID and an ID of
  more than 32 bits come back as they are.
\<close>

theorem convertToNumericId_number_verbatim:
  "CHDWriter_convertToNumericId idMapping (JNum n) = (n, idMapping)
   \<and> CHDParser_convertToNumericId (JNum n) = n
   \<and> fst (CHDWriter_convertToNumericId idMapping (JNum (- 7))) < 0
   \<and> 2 ^ 32 \<le> CHDParser_convertToNumericId (JNum (2 ^ 40))"
  by (simp add: CHDWriter_convertToNumericId_def CHDParser_convertToNumericId_def)

section \<open>Properties of the reader\<close>

text \<open>
  Claim C5. Each primitive read whose byte count runs past the end of the buffer throws:
  it returns no value, the error carries the cursor position at which the read was
  attempted, and the reader is left as it was (the cursor has not moved).
\<close>

theorem read_past_end_throws:
  "(length (br_buffer r) < br_offset r + len \<longrightarrow>
      readBytes r len = (Inl (CannotReadBytes len (br_offset r)), r))
   \<and> (length (br_buffer r) < br_offset r + 1 \<longrightarrow>
      readUInt8 r = (Inl (CannotRead ''UInt8'' (br_offset r)), r))
   \<and> (length (br_buffer r) < br_offset r + 2 \<longrightarrow>
      readUInt16 r = (Inl (CannotRead ''UInt16'' (br_offset r)), r))
   \<and> (length (br_buffer r) < br_offset r + 4 \<longrightarrow>
      readUInt32 r = (Inl (CannotRead ''UInt32'' (br_offset r)), r)
      \<and> readInt32 r = (Inl (CannotRead ''Int32'' (br_offset r)), r)
      \<and> readFloat32 r = (Inl (CannotRead ''Float32'' (br_offset r)), r))
   \<and> (length (br_buffer r) < br_offset r + 8 \<longrightarrow>
      readFloat64 r = (Inl (CannotRead ''Float64'' (br_offset r)), r))"
  by (simp add: readBytes_def readUInt8_def readUInt16_def readUInt32_def readInt32_def
      readFloat32_def readFloat64_def canRead_def)

theorem read_past_end_throws_witness:
  "readBytes \<lparr>br_buffer = [1, 2, 3], br_offset = 3, br_littleEndian = True\<rparr> 2
     = (Inl (CannotReadBytes 2 3), \<lparr>br_buffer = [1, 2, 3], br_offset = 3, br_littleEndian = True\<rparr>)
   \<and> readUInt8 \<lparr>br_buffer = [1, 2, 3], br_offset = 3, br_littleEndian = True\<rparr>
     = (Inl (CannotRead ''UInt8'' 3), \<lparr>br_buffer = [1, 2, 3], br_offset = 3, br_littleEndian = True\<rparr>)
   \<and> readUInt16 \<lparr>br_buffer = [1, 2, 3], br_offset = 3, br_littleEndian = True\<rparr>
     = (Inl (CannotRead ''UInt16'' 3), \<lparr>br_buffer = [1, 2, 3], br_offset = 3, br_littleEndian = True\<rparr>)
   \<and> readUInt32 \<lparr>br_buffer = [1, 2, 3], br_offset = 3, br_littleEndian = True\<rparr>
     = (Inl (CannotRead ''UInt32'' 3), \<lparr>br_buffer = [1, 2, 3], br_offset = 3, br_littleEndian = True\<rparr>)
   \<and> readInt32 \<lparr>br_buffer = [1, 2, 3], br_offset = 3, br_littleEndian = True\<rparr>
     = (Inl (CannotRead ''Int32'' 3), \<lparr>br_buffer = [1, 2, 3], br_offset = 3, br_littleEndian = True\<rparr>)
   \<and> readFloat32 \<lparr>br_buffer = [1, 2, 3], br_offset = 3, br_littleEndian = True\<rparr>
     = (Inl (CannotRead ''Float32'' 3), \<lparr>br_buffer = [1, 2, 3], br_offset = 3, br_littleEndian = True\<rparr>)
   \<and> readFloat64 \<lparr>br_buffer = [1, 2, 3], br_offset = 3, br_littleEndian = True\<rparr>
     = (Inl (CannotRead ''Float64'' 3), \<lparr>br_buffer = [1, 2, 3], br_offset = 3, br_littleEndian = True\<rparr>)"
  using read_past_end_throws
    [of "\<lparr>br_buffer = [1, 2, 3], br_offset = 3, br_littleEndian = True\<rparr>" 2]
  by simp

section \<open>Properties of the reader's queries\<close>

text \<open>
  Claim C8. Whatever the bounds, \<open>queryByBounds\<close> on a reader whose spatial index is
  \<open>null\<close> throws the error \<^verbatim>\<open>Spatial index not loaded. Enable loadSpatialIndex option.\<close>;
  it returns no result, and the reader is unchanged.
\<close>

theorem queryByBounds_index_not_loaded:
  "p_spatialIndex p = None \<Longrightarrow>
     queryByBounds fuel p minX minY minZ maxX maxY maxZ = Some (Inl SpatialIndexNotLoaded, p)"
  by (simp add: queryByBounds_def)

theorem queryByBounds_index_not_loaded_witness:
  "queryByBounds 1
     (newCHDParser \<lparr>po_loadGeometry = True, po_loadAttributes = True, po_loadSpatialIndex = False\<rparr>)
     0 0 0 1 1 1
   = Some (Inl SpatialIndexNotLoaded,
       newCHDParser \<lparr>po_loadGeometry = True, po_loadAttributes = True, po_loadSpatialIndex = False\<rparr>)"
  using queryByBounds_index_not_loaded
    [of "newCHDParser \<lparr>po_loadGeometry = True, po_loadAttributes = True, po_loadSpatialIndex = False\<rparr>"
        1 0 0 0 1 1 1]
  by (simp add: newCHDParser_def)

text \<open>
  Claim C2, at a failing input. The container of the worked example is parsed with the
  spatial index and without the geometry, so no chunk is loaded. \<open>getElement\<close> of the
  surrogate 99 of element \<open>c\<close> finds chunk ID 2 in the index (the number that the chunk's
  ID string \<open>002\<close> was stored as) and asks \<open>loadSpecificChunk\<close> for it; no chunk of the
  manifest has an ID that is strictly equal to the number 2, the call throws
  \<^verbatim>\<open>Chunk 2 not found in manifest\<close>, and nothing is added to the loaded chunks.
\<close>

theorem getElement_lazy_load_throws:
  "findChunkForElement (the (p_spatialIndex (exampleParser False))) 99 = Some 2
   \<and> map ci_id (mf_geometry_chunks (the (p_manifest (exampleParser False)))) = [''001'', ''002'']
   \<and> p_loadedChunks (exampleParser False) = []
   \<and> fst (getElement (exampleParser False) 99) = Inl (ChunkNotFoundInManifest (JNum 2))
   \<and> p_loadedChunks (snd (getElement (exampleParser False) 99)) = []"
  by code_simp

lemma getElement_lazy_path_throws:
  assumes "findLoaded (p_loadedChunks p) elementId = None"
    and "p_spatialIndex p = Some idx"
    and "findChunkForElement idx elementId = Some chunkId"
    and "chunkId \<noteq> 0"
    and "map_of (p_loadedChunks p) (JNum chunkId) = None"
    and "p_manifest p = Some m"
  shows "getElement p elementId = (Inl (ChunkNotFoundInManifest (JNum chunkId)), p)"
proof -
  have "find (\<lambda>c. JStr (ci_id c) = JNum chunkId) (mf_geometry_chunks m) = None"
    by (simp add: find_None_iff)
  then have "loadSpecificChunk p (JNum chunkId) = (Inl (ChunkNotFoundInManifest (JNum chunkId)), p)"
    using assms(6) by (simp add: loadSpecificChunk_def)
  then show ?thesis
    using assms(1-5) by (simp add: getElement_def)
qed

section \<open>The stages of \<open>write\<close>\<close>

text \<open>
  What each stage of the pipeline does to the writer's state, given that the manifest
  exists: it returns, and it keeps the options, the chunks and the manifest's format tag,
  version and statistics. The chunking loop returns whenever the chunk size is positive;
  with a chunk size of 0 and an element to place it never returns, and neither does
  \<open>write\<close>.
\<close>

lemma reportProgress_fields [simp]:
  "w_options (reportProgress w s x) = w_options w"
  "w_chunks (reportProgress w s x) = w_chunks w"
  "w_manifest (reportProgress w s x) = w_manifest w"
  "w_files (reportProgress w s x) = w_files w"
  "w_materials (reportProgress w s x) = w_materials w"
  "w_properties (reportProgress w s x) = w_properties w"
  "w_progress (reportProgress w s x)
     = w_progress w @ (if opt_progressCallback (w_options w) then [progressEvent s x] else [])"
  by (simp_all add: reportProgress_def progressEvent_def)

lemma manifestCore_reportProgress [simp]:
  "manifestCore (reportProgress w s x) = manifestCore w"
  by (simp add: manifestCore_def)

lemma chunkingKeeps_refl: "chunkingKeeps w w"
  by (simp add: chunkingKeeps_def)

lemma chunkingKeeps_trans: "chunkingKeeps a b \<Longrightarrow> chunkingKeeps b c \<Longrightarrow> chunkingKeeps a c"
  by (simp add: chunkingKeeps_def)

lemma processChunkGeometry_keeps:
  "processChunkGeometry w chunk = Inr processed \<Longrightarrow>
     chunkingKeeps w ((snd processed)\<lparr>w_chunks := w_chunks (snd processed) @ [fst processed]\<rparr>)"
  by (auto simp add: processChunkGeometry_def chunkingKeeps_def manifestCore_def Let_def
      split: option.splits)

lemma chunkLoop_keeps_aux:
  assumes "chunkLoop elements i w = Some y"
  shows "\<forall>w'. y = Inr w' \<longrightarrow> chunkingKeeps w w'"
proof (induct elements i w y rule: chunkLoop.raw_induct)
  case (1 loop elements i w y)
  note IH = 1(1) and eq = 1(2)
  show ?case
  proof (cases "i < length elements")
    case False
    with eq show ?thesis by (auto simp add: chunkingKeeps_refl)
  next
    case True
    define chunk where "chunk = \<lparr>ch_id = padStart3 (showNat (i div opt_chunkSize (w_options w) + 1)),
      ch_elements = take (opt_chunkSize (w_options w)) (drop i elements), ch_vertices = [],
      ch_faces = [], ch_elementTable = []\<rparr>"
    show ?thesis
    proof (cases "processChunkGeometry w chunk")
      case (Inl e)
      with eq True show ?thesis by (auto simp add: Let_def chunk_def)
    next
      case (Inr processed)
      with eq True have "loop elements (i + opt_chunkSize (w_options w))
          ((snd processed)\<lparr>w_chunks := w_chunks (snd processed) @ [fst processed]\<rparr>) = Some y"
        by (simp add: Let_def chunk_def)
      from IH[OF this] processChunkGeometry_keeps[OF Inr]
      show ?thesis by (blast intro: chunkingKeeps_trans)
    qed
  qed
qed (rule assms)

lemma chunkLoop_keeps:
  "chunkLoop elements i w = Some (Inr w') \<Longrightarrow> chunkingKeeps w w'"
  using chunkLoop_keeps_aux by blast

lemma processChunkGeometry_total:
  "w_manifest w \<noteq> None \<Longrightarrow>
     \<exists>processed. processChunkGeometry w chunk = Inr processed \<and> w_manifest (snd processed) \<noteq> None
       \<and> w_options (snd processed) = w_options w"
  by (auto simp add: processChunkGeometry_def Let_def)

lemma chunkLoop_returns:
  assumes "0 < opt_chunkSize (w_options w)" "w_manifest w \<noteq> None"
  shows "\<exists>w'. chunkLoop elements i w = Some (Inr w')"
  using assms
proof (induction "length elements - i" arbitrary: i w rule: less_induct)
  case less
  show ?case
  proof (cases "i < length elements")
    case False
    then show ?thesis by (subst chunkLoop.simps) simp
  next
    case True
    define chunk where "chunk = \<lparr>ch_id = padStart3 (showNat (i div opt_chunkSize (w_options w) + 1)),
      ch_elements = take (opt_chunkSize (w_options w)) (drop i elements), ch_vertices = [],
      ch_faces = [], ch_elementTable = []\<rparr>"
    obtain processed where pr: "processChunkGeometry w chunk = Inr processed"
      "w_manifest (snd processed) \<noteq> None" "w_options (snd processed) = w_options w"
      using processChunkGeometry_total[OF less.prems(2)] by blast
    define w1 where "w1 = (snd processed)\<lparr>w_chunks := w_chunks (snd processed) @ [fst processed]\<rparr>"
    have "length elements - (i + opt_chunkSize (w_options w)) < length elements - i"
      using True less.prems(1) by simp
    from less.hyps[OF this, of w1] pr(2,3) less.prems(1)
    obtain w' where "chunkLoop elements (i + opt_chunkSize (w_options w)) w1 = Some (Inr w')"
      by (auto simp add: w1_def)
    then show ?thesis
      using True pr(1) by (subst chunkLoop.simps) (simp add: Let_def chunk_def w1_def)
  qed
qed


lemma chunkLoop_zero_aux:
  assumes "chunkLoop elements i w = Some y"
  shows "\<not> (opt_chunkSize (w_options w) = 0 \<and> i < length elements \<and> w_manifest w \<noteq> None)"
proof (induct elements i w y rule: chunkLoop.raw_induct)
  case (1 loop elements i w y)
  note IH = 1(1) and eq = 1(2)
  show ?case
  proof
    assume c: "opt_chunkSize (w_options w) = 0 \<and> i < length elements \<and> w_manifest w \<noteq> None"
    define chunk where "chunk = \<lparr>ch_id = padStart3 (showNat (i div opt_chunkSize (w_options w) + 1)),
      ch_elements = take (opt_chunkSize (w_options w)) (drop i elements), ch_vertices = [],
      ch_faces = [], ch_elementTable = []\<rparr>"
    from c processChunkGeometry_total[of w chunk] obtain processed where
      pr: "processChunkGeometry w chunk = Inr processed"
        "w_manifest (snd processed) \<noteq> None" "w_options (snd processed) = w_options w"
      by blast
    let ?w1 = "(snd processed)\<lparr>w_chunks := w_chunks (snd processed) @ [fst processed]\<rparr>"
    from eq c pr(1) have "loop elements i ?w1 = Some y"
      by (simp add: Let_def chunk_def)
    from IH[OF this] c pr(2,3) show False by simp
  qed
qed (rule assms)

lemma chunkLoop_zero_chunkSize:
  assumes "opt_chunkSize (w_options w) = 0" "i < length elements" "w_manifest w \<noteq> None"
  shows "chunkLoop elements i w = None"
proof (cases "chunkLoop elements i w")
  case (Some y)
  from chunkLoop_zero_aux[OF Some] assms show ?thesis by simp
qed simp

lemma processModelData_result:
  assumes "processModelData w model = Some (Inr w2)"
  shows "\<exists>elements st. m_elements model = ElementsArray elements
     \<and> manifestCore w2 = Some (''CHD'', ''1.0'', st) \<and> total_elements st = length elements
     \<and> w_options w2 = w_options w \<and> w_progress w2 = w_progress w \<and> w_files w2 = w_files w"
proof (cases "m_elements model")
  case (ElementsArray elements)
  define m0 where "m0 = \<lparr>mf_format = ''CHD'', mf_version = ''1.0'',
     mf_bounding_box = calculateProjectBoundingBox elements,
     mf_geometry_chunks = [], mf_attribute_files = [], mf_spatial_index = None,
     mf_statistics = \<lparr>total_elements = length elements, total_vertices = 0, total_faces = 0\<rparr>\<rparr>"
  from assms ElementsArray obtain w' where
    loop: "chunkLoop elements 0 (w\<lparr>w_manifest := Some m0\<rparr>) = Some (Inr w')"
    and w2: "w2 = processProperties (processMaterials w' (m_materials model)) elements"
    by (auto simp add: processModelData_def organizeElementsIntoChunks_def m0_def Let_def
        split: option.splits sum.splits)
  from chunkLoop_keeps[OF loop] have "chunkingKeeps (w\<lparr>w_manifest := Some m0\<rparr>) w'" .
  then obtain st where "manifestCore w' = Some (''CHD'', ''1.0'', st)" "total_elements st = length elements"
    "w_options w' = w_options w" "w_progress w' = w_progress w" "w_files w' = w_files w"
    by (auto simp add: chunkingKeeps_def manifestCore_def m0_def)
  then show ?thesis
    using ElementsArray w2
    by (auto simp add: processProperties_def processMaterials_def manifestCore_def)
qed (use assms in \<open>simp_all add: processModelData_def\<close>)

lemma processModelData_chunks:
  assumes "m_elements model = ElementsArray elements" "0 < opt_chunkSize (w_options w)"
  shows "\<exists>w2. processModelData w model = Some (Inr w2)"
proof -
  define m0 where "m0 = \<lparr>mf_format = ''CHD'', mf_version = ''1.0'',
     mf_bounding_box = calculateProjectBoundingBox elements,
     mf_geometry_chunks = [], mf_attribute_files = [], mf_spatial_index = None,
     mf_statistics = \<lparr>total_elements = length elements, total_vertices = 0, total_faces = 0\<rparr>\<rparr>"
  have "\<exists>w'. chunkLoop elements 0 (w\<lparr>w_manifest := Some m0\<rparr>) = Some (Inr w')"
    by (rule chunkLoop_returns) (use assms in simp_all)
  then show ?thesis
    using assms(1)
    by (auto simp add: processModelData_def organizeElementsIntoChunks_def m0_def Let_def)
qed

lemma chunkEvents_Suc:
  "map (\<lambda>j. f (i + j)) [0..<Suc n] = f i # map (\<lambda>j. f (Suc i + j)) [0..<n]"
proof -
  have "[0..<Suc n] = 0 # map Suc [0..<n]"
    by (simp add: upt_conv_Cons map_Suc_upt del: upt_Suc)
  then show ?thesis by (simp add: comp_def del: upt_Suc)
qed

lemma writeChunksFrom_result:
  assumes "manifestCore w = Some c"
  shows "\<exists>w'. writeChunksFrom f32 i cs w = Inr w' \<and> manifestCore w' = Some c
     \<and> w_options w' = w_options w \<and> w_chunks w' = w_chunks w
     \<and> w_materials w' = w_materials w \<and> w_properties w' = w_properties w
     \<and> w_files w' ''spatial.idx'' = w_files w ''spatial.idx''
     \<and> w_progress w' = w_progress w @
         (if opt_progressCallback (w_options w)
          then map (\<lambda>j. progressEvent ''chunk''
                 (20 + (30 * (of_nat (i + j) + 1)) / of_nat (length (w_chunks w)))) [0..<length cs]
          else [])"
  using assms
proof (induction cs arbitrary: i w)
  case Nil
  then show ?case by simp
next
  case (Cons chunk rest)
  from Cons.prems obtain m where m: "w_manifest w = Some m"
    by (auto simp add: manifestCore_def)
  define written where "written = w\<lparr>w_files := (w_files w)
       (''geometry/'' @ ''chunk_'' @ ch_id chunk @ ''.bin''
          \<mapsto> ChunkBin (createGeometryChunkBinary f32 (w_options w) chunk)),
     w_manifest := Some (m\<lparr>mf_geometry_chunks := mf_geometry_chunks m
       @ [\<lparr>ci_id = ch_id chunk, ci_file = ''geometry/'' @ ''chunk_'' @ ch_id chunk @ ''.bin'',
           ci_elements = length (ch_elementTable chunk)\<rparr>]\<rparr>)\<rparr>"
  define w1 where "w1 = reportProgress written ''chunk''
     (20 + (30 * (of_nat i + 1)) / of_nat (length (w_chunks w)))"
  have step: "writeChunksFrom f32 i (chunk # rest) w = writeChunksFrom f32 (i + 1) rest w1"
    using m by (simp add: Let_def written_def w1_def)
  have w1: "manifestCore w1 = Some c" "w_options w1 = w_options w" "w_chunks w1 = w_chunks w"
    "w_materials w1 = w_materials w" "w_properties w1 = w_properties w"
    "w_files w1 ''spatial.idx'' = w_files w ''spatial.idx''"
    "w_progress w1 = w_progress w @ (if opt_progressCallback (w_options w)
        then [progressEvent ''chunk'' (20 + (30 * (of_nat i + 1)) / of_nat (length (w_chunks w)))]
        else [])"
    using Cons.prems m by (simp_all add: w1_def written_def manifestCore_def)
  from Cons.IH[OF w1(1), of "i + 1"] obtain w' where
    w': "writeChunksFrom f32 (i + 1) rest w1 = Inr w'" "manifestCore w' = Some c"
      "w_options w' = w_options w1" "w_chunks w' = w_chunks w1"
      "w_materials w' = w_materials w1" "w_properties w' = w_properties w1"
      "w_files w' ''spatial.idx'' = w_files w1 ''spatial.idx''"
      "w_progress w' = w_progress w1 @
         (if opt_progressCallback (w_options w1)
          then map (\<lambda>j. progressEvent ''chunk''
                 (20 + (30 * (of_nat (i + 1 + j) + 1)) / of_nat (length (w_chunks w1)))) [0..<length rest]
          else [])"
    by blast
  have "map (\<lambda>j. progressEvent ''chunk''
          (20 + (30 * (of_nat (i + j) + 1)) / of_nat (length (w_chunks w)))) [0..<length (chunk # rest)]
      = progressEvent ''chunk'' (20 + (30 * (of_nat i + 1)) / of_nat (length (w_chunks w)))
        # map (\<lambda>j. progressEvent ''chunk''
          (20 + (30 * (of_nat (i + 1 + j) + 1)) / of_nat (length (w_chunks w)))) [0..<length rest]"
    using chunkEvents_Suc[of "\<lambda>k. progressEvent ''chunk''
          (20 + (30 * (of_nat k + 1)) / of_nat (length (w_chunks w)))" i "length rest"]
    by simp
  with step w' w1 show ?case by simp
qed

lemma writeAttributeFile_result:
  assumes "manifestCore w = Some c"
  shows "\<exists>w'. writeAttributeFile kind path keys w = Inr w' \<and> manifestCore w' = Some c
     \<and> w_options w' = w_options w \<and> w_chunks w' = w_chunks w
     \<and> w_materials w' = w_materials w \<and> w_properties w' = w_properties w
     \<and> w_progress w' = w_progress w
     \<and> (\<forall>k. k \<noteq> path \<longrightarrow> w_files w' k = w_files w k)"
  using assms by (auto simp add: writeAttributeFile_def manifestCore_def)

lemma writeAttributes_result:
  assumes "manifestCore w = Some c"
  shows "\<exists>w'. writeAttributes w = Inr w' \<and> manifestCore w' = Some c
     \<and> w_options w' = w_options w \<and> w_chunks w' = w_chunks w
     \<and> w_materials w' = w_materials w \<and> w_properties w' = w_properties w
     \<and> w_progress w' = w_progress w
     \<and> w_files w' ''spatial.idx'' = w_files w ''spatial.idx''"
proof -
  from writeAttributeFile_result[OF assms, of "''materials''" "''attributes/materials.cbor''"
      "map JStr (w_materials w)"]
  obtain w1 where w1: "writeAttributeFile ''materials'' ''attributes/materials.cbor''
       (map JStr (w_materials w)) w = Inr w1" "manifestCore w1 = Some c"
     "w_options w1 = w_options w" "w_chunks w1 = w_chunks w"
     "w_materials w1 = w_materials w" "w_properties w1 = w_properties w"
     "w_progress w1 = w_progress w"
     "w_files w1 ''spatial.idx'' = w_files w ''spatial.idx''"
    by auto
  from writeAttributeFile_result[OF w1(2), of "''properties''" "''attributes/properties.cbor''"
      "w_properties w1"]
  obtain w2 where w2: "writeAttributeFile ''properties'' ''attributes/properties.cbor''
       (w_properties w1) w1 = Inr w2" "manifestCore w2 = Some c"
     "w_options w2 = w_options w1" "w_chunks w2 = w_chunks w1"
     "w_materials w2 = w_materials w1" "w_properties w2 = w_properties w1"
     "w_progress w2 = w_progress w1"
     "w_files w2 ''spatial.idx'' = w_files w1 ''spatial.idx''"
    by auto
  show ?thesis
    using w1 w2 by (simp add: writeAttributes_def)
qed

lemma createSpatialIndex_result:
  assumes "manifestCore w = Some c"
  shows "\<exists>w'. createSpatialIndex f32 w = Inr w' \<and> manifestCore w' = Some c
     \<and> w_options w' = w_options w \<and> w_chunks w' = w_chunks w
     \<and> w_materials w' = w_materials w \<and> w_properties w' = w_properties w
     \<and> w_progress w' = w_progress w
     \<and> (w_chunks w = [] \<longrightarrow> w' = w)"
  using assms by (auto simp add: createSpatialIndex_def manifestCore_def Let_def)


lemma writeManifest_result:
  assumes "manifestCore w = Some (fmt, ver, st)"
  shows "\<exists>m. mf_format m = fmt \<and> mf_version m = ver \<and> mf_statistics m = st
     \<and> w_manifest w = Some m
     \<and> writeManifest w = Inr (w\<lparr>w_files := (w_files w)(''manifest.json'' \<mapsto> ManifestJson m)\<rparr>)"
  using assms by (auto simp add: writeManifest_def manifestCore_def)

lemma writeRelations_fields [simp]:
  "w_options (writeRelations w) = w_options w"
  "w_chunks (writeRelations w) = w_chunks w"
  "w_manifest (writeRelations w) = w_manifest w"
  "w_materials (writeRelations w) = w_materials w"
  "w_properties (writeRelations w) = w_properties w"
  "w_progress (writeRelations w) = w_progress w"
  "w_files (writeRelations w) ''manifest.json'' = w_files w ''manifest.json''"
  "w_files (writeRelations w) ''spatial.idx'' = w_files w ''spatial.idx''"
  by (simp_all add: writeRelations_def)

lemma spatialIndexStep_result:
  assumes "manifestCore w = Some c"
  shows "\<exists>w'. spatialIndexStep f32 w = Inr w' \<and> manifestCore w' = Some c
     \<and> w_options w' = w_options w \<and> w_chunks w' = w_chunks w
     \<and> (w_chunks w = [] \<longrightarrow> w_files w' = w_files w)
     \<and> w_progress w' = w_progress w @
         (if opt_progressCallback (w_options w) \<and> opt_createSpatialIndex (w_options w)
          then [progressEvent ''spatial_index'' 85] else [])"
proof -
  from createSpatialIndex_result[OF assms, of f32]
  obtain w5 where w5: "createSpatialIndex f32 w = Inr w5" "manifestCore w5 = Some c"
    "w_options w5 = w_options w" "w_chunks w5 = w_chunks w"
    "w_progress w5 = w_progress w" "w_chunks w = [] \<longrightarrow> w5 = w"
    by blast
  then show ?thesis
    using assms by (auto simp add: spatialIndexStep_def)
qed

lemma afterModelData_result:
  assumes core: "manifestCore w2 = Some (fmt, ver, st)"
  shows "\<exists>res w'. afterModelData f32 w2 = Inr (res, w') \<and> wr_success res
     \<and> ws_elements (wr_statistics res) = total_elements st
     \<and> ws_vertices (wr_statistics res) = total_vertices st
     \<and> ws_faces (wr_statistics res) = total_faces st
     \<and> ws_chunks (wr_statistics res) = length (w_chunks w2)
     \<and> (\<exists>m. w_files w' ''manifest.json'' = Some (ManifestJson m)
            \<and> mf_format m = fmt \<and> mf_version m = ver \<and> mf_statistics m = st)
     \<and> (w_chunks w2 = [] \<longrightarrow> w_files w' ''spatial.idx'' = w_files w2 ''spatial.idx'')
     \<and> w_progress w' = w_progress w2 @
         (if opt_progressCallback (w_options w2)
          then progressEvent ''process'' 20
             # map (\<lambda>j. progressEvent ''chunk''
                     (20 + (30 * (of_nat (0 + j) + 1)) / of_nat (length (w_chunks w2))))
                 [0..<length (w_chunks w2)]
             @ [progressEvent ''geometry'' 50, progressEvent ''attributes'' 70]
             @ (if opt_createSpatialIndex (w_options w2)
                then [progressEvent ''spatial_index'' 85] else [])
             @ [progressEvent ''manifest'' 95, progressEvent ''complete'' 100]
          else [])"
proof -
  let ?p2 = "reportProgress w2 ''process'' 20"
  have p2: "manifestCore ?p2 = Some (fmt, ver, st)"
    using core by simp
  from writeChunksFrom_result[OF p2, of f32 0 "w_chunks ?p2"]
  obtain w3 where w3: "writeGeometryChunks f32 ?p2 = Inr w3" "manifestCore w3 = Some (fmt, ver, st)"
    "w_options w3 = w_options w2" "w_chunks w3 = w_chunks w2"
    "w_files w3 ''spatial.idx'' = w_files w2 ''spatial.idx''"
    "w_progress w3 = w_progress ?p2 @
         (if opt_progressCallback (w_options w2)
          then map (\<lambda>j. progressEvent ''chunk''
                 (20 + (30 * (of_nat (0 + j) + 1)) / of_nat (length (w_chunks w2))))
                 [0..<length (w_chunks w2)]
          else [])"
    unfolding writeGeometryChunks_def by auto
  let ?p3 = "reportProgress w3 ''geometry'' 50"
  have p3: "manifestCore ?p3 = Some (fmt, ver, st)"
    using w3 by simp
  from writeAttributes_result[OF p3]
  obtain w4 where w4: "writeAttributes ?p3 = Inr w4" "manifestCore w4 = Some (fmt, ver, st)"
    "w_options w4 = w_options w2" "w_chunks w4 = w_chunks w2"
    "w_progress w4 = w_progress ?p3"
    "w_files w4 ''spatial.idx'' = w_files w2 ''spatial.idx''"
    using w3 by auto
  let ?p4 = "reportProgress w4 ''attributes'' 70"
  have p4: "manifestCore ?p4 = Some (fmt, ver, st)"
    using w4 by simp
  from spatialIndexStep_result[OF p4, of f32]
  obtain p5 where p5: "spatialIndexStep f32 ?p4 = Inr p5" "manifestCore p5 = Some (fmt, ver, st)"
    "w_options p5 = w_options w2" "w_chunks p5 = w_chunks w2"
    "w_chunks w2 = [] \<longrightarrow> w_files p5 ''spatial.idx'' = w_files w2 ''spatial.idx''"
    "w_progress p5 = w_progress ?p4 @
         (if opt_progressCallback (w_options w2) \<and> opt_createSpatialIndex (w_options w2)
          then [progressEvent ''spatial_index'' 85] else [])"
    using w4 by auto
  from writeManifest_result[OF p5(2)]
  obtain m where m: "mf_format m = fmt" "mf_version m = ver" "mf_statistics m = st"
    "w_manifest p5 = Some m"
    "writeManifest p5 = Inr (p5\<lparr>w_files := (w_files p5)(''manifest.json'' \<mapsto> ManifestJson m)\<rparr>)"
    by blast
  let ?w6 = "p5\<lparr>w_files := (w_files p5)(''manifest.json'' \<mapsto> ManifestJson m)\<rparr>"
  let ?p7 = "reportProgress (writeRelations (reportProgress ?w6 ''manifest'' 95)) ''complete'' 100"
  have p7: "w_manifest ?p7 = Some m" "w_chunks ?p7 = w_chunks w2"
    "w_files ?p7 ''manifest.json'' = Some (ManifestJson m)"
    "w_chunks w2 = [] \<longrightarrow> w_files ?p7 ''spatial.idx'' = w_files w2 ''spatial.idx''"
    "w_progress ?p7 = w_progress p5 @
       (if opt_progressCallback (w_options w2)
        then [progressEvent ''manifest'' 95, progressEvent ''complete'' 100] else [])"
    using p5 m(4) by simp_all
  let ?stats = "\<lparr>ws_chunks = length (w_chunks w2),
       ws_elements = total_elements st, ws_vertices = total_vertices st,
       ws_faces = total_faces st, ws_materials = length (w_materials ?p7),
       ws_properties = length (w_properties ?p7)\<rparr>"
  have stats: "getWriteStatistics ?p7 = Inr ?stats"
    using p7(1,2) m(3) by (simp add: getWriteStatistics_def)
  have run: "afterModelData f32 w2 = Inr (\<lparr>wr_success = True, wr_statistics = ?stats\<rparr>, ?p7)"
    by (simp only: afterModelData_def Let_def w3(1) w4(1) p5(1) m(5) stats sum.case)
  have log: "w_progress ?p7 = w_progress w2 @
         (if opt_progressCallback (w_options w2)
          then progressEvent ''process'' 20
             # map (\<lambda>j. progressEvent ''chunk''
                     (20 + (30 * (of_nat (0 + j) + 1)) / of_nat (length (w_chunks w2))))
                 [0..<length (w_chunks w2)]
             @ [progressEvent ''geometry'' 50, progressEvent ''attributes'' 70]
             @ (if opt_createSpatialIndex (w_options w2)
                then [progressEvent ''spatial_index'' 85] else [])
             @ [progressEvent ''manifest'' 95, progressEvent ''complete'' 100]
          else [])"
    by (simp add: p5(3,6) w4(5) w3(6) w3(3) w4(3))
  show ?thesis
    using log p7(3,4) m(1-3) by (simp only: run) simp
qed


lemma write_success_steps:
  assumes "CHDWriter_write f32 w model = Some (Inr (res, w'))"
  shows "\<exists>w2. processModelData (reportProgress w ''prepare'' 5) model = Some (Inr w2)
     \<and> afterModelData f32 w2 = Inr (res, w')"
  using assms
  by (auto simp add: CHDWriter_write_def Let_def split: option.splits sum.splits)

lemma write_success_facts:
  assumes "CHDWriter_write f32 w model = Some (Inr (res, w'))"
  shows "\<exists>elements st m n. m_elements model = ElementsArray elements
     \<and> total_elements st = length elements
     \<and> wr_success res
     \<and> ws_elements (wr_statistics res) = total_elements st
     \<and> ws_vertices (wr_statistics res) = total_vertices st
     \<and> ws_faces (wr_statistics res) = total_faces st
     \<and> w_files w' ''manifest.json'' = Some (ManifestJson m)
     \<and> mf_format m = ''CHD'' \<and> mf_version m = ''1.0'' \<and> mf_statistics m = st
     \<and> w_progress w' = w_progress w @
         (if opt_progressCallback (w_options w)
          then progressEvent ''prepare'' 5 # progressEvent ''process'' 20
             # map (\<lambda>j. progressEvent ''chunk'' (20 + (30 * (of_nat (0 + j) + 1)) / of_nat n)) [0..<n]
             @ [progressEvent ''geometry'' 50, progressEvent ''attributes'' 70]
             @ (if opt_createSpatialIndex (w_options w)
                then [progressEvent ''spatial_index'' 85] else [])
             @ [progressEvent ''manifest'' 95, progressEvent ''complete'' 100]
          else [])"
proof -
  from write_success_steps[OF assms] obtain w2 where
    s1: "processModelData (reportProgress w ''prepare'' 5) model = Some (Inr w2)"
    and s2: "afterModelData f32 w2 = Inr (res, w')"
    by blast
  from processModelData_result[OF s1] obtain elements st where
    a: "m_elements model = ElementsArray elements"
      "manifestCore w2 = Some (''CHD'', ''1.0'', st)" "total_elements st = length elements"
      "w_options w2 = w_options w"
      "w_progress w2 = w_progress w @
         (if opt_progressCallback (w_options w) then [progressEvent ''prepare'' 5] else [])"
    by auto
  from afterModelData_result[OF a(2), of f32] s2 a(1,3,4,5)
  show ?thesis
    by (intro exI[of _ elements] exI[of _ st]) auto
qed

lemma write_returns:
  assumes "m_elements model = ElementsArray elements" "0 < opt_chunkSize (w_options w)"
  shows "\<exists>res w'. CHDWriter_write f32 w model = Some (Inr (res, w'))"
proof -
  from processModelData_chunks[OF assms(1), of "reportProgress w ''prepare'' 5"] assms(2)
  obtain w2 where s1: "processModelData (reportProgress w ''prepare'' 5) model = Some (Inr w2)"
    by auto
  from processModelData_result[OF s1] obtain st where
    "manifestCore w2 = Some (''CHD'', ''1.0'', st)" by blast
  from afterModelData_result[OF this, of f32] obtain res w' where
    s2: "afterModelData f32 w2 = Inr (res, w')" by blast
  have "CHDWriter_write f32 w model = Some (Inr (res, w'))"
    by (simp only: CHDWriter_write_def Let_def s1 s2 option.case sum.case)
  then show ?thesis by blast
qed

lemma write_zero_chunkSize:
  assumes "opt_chunkSize (w_options w) = 0" "m_elements model = ElementsArray (e # es)"
  shows "CHDWriter_write f32 w model = None"
proof -
  let ?m0 = "\<lparr>mf_format = ''CHD'', mf_version = ''1.0'',
     mf_bounding_box = calculateProjectBoundingBox (e # es),
     mf_geometry_chunks = [], mf_attribute_files = [], mf_spatial_index = None,
     mf_statistics = \<lparr>total_elements = length (e # es), total_vertices = 0, total_faces = 0\<rparr>\<rparr>"
  have "chunkLoop (e # es) 0 ((reportProgress w ''prepare'' 5)\<lparr>w_manifest := Some ?m0\<rparr>) = None"
    by (rule chunkLoop_zero_chunkSize) (use assms(1) in simp_all)
  then show ?thesis
    using assms(2)
    by (simp add: CHDWriter_write_def processModelData_def organizeElementsIntoChunks_def Let_def)
qed

lemma exampleWrite_outcome:
  "writeOutcome exampleWrite = Some (Inr \<lparr>wr_success = True,
     wr_statistics = \<lparr>ws_chunks = 2, ws_elements = 3, ws_vertices = 9, ws_faces = 3,
       ws_materials = 0, ws_properties = 0\<rparr>\<rparr>)"
  by code_simp

lemma exampleWrite_returns:
  "\<exists>w'. exampleWrite = Some (Inr (\<lparr>wr_success = True,
     wr_statistics = \<lparr>ws_chunks = 2, ws_elements = 3, ws_vertices = 9, ws_faces = 3,
       ws_materials = 0, ws_properties = 0\<rparr>\<rparr>, w'))"
proof -
  from exampleWrite_outcome obtain r where r: "exampleWrite = Some r"
    by (cases exampleWrite) (simp_all add: writeOutcome_def)
  have m: "map_sum fst fst r = Inr \<lparr>wr_success = True,
     wr_statistics = \<lparr>ws_chunks = 2, ws_elements = 3, ws_vertices = 9, ws_faces = 3,
       ws_materials = 0, ws_properties = 0\<rparr>\<rparr>"
    using exampleWrite_outcome unfolding r writeOutcome_def by simp
  show ?thesis
  proof (cases r)
    case (Inl failure)
    with m show ?thesis by simp
  next
    case (Inr success)
    with m r show ?thesis by (cases success) auto
  qed
qed

section \<open>Input validation of \<open>write\<close>\<close>

text \<open>
  Claim C6, as stated, fails: a model whose element list is the empty array passes the
  check of \<open>processModelData\<close>, and \<open>write\<close> on a new writer returns successfully, having
  written a manifest that records no element and no chunk.
\<close>

theorem write_empty_elements_counterexample:
  "writeOutcome (CHDWriter_write (\<lambda>x. x) (newCHDWriter exampleOptions Map.empty)
       \<lparr>m_elements = ElementsArray [], m_materials = []\<rparr>)
     = Some (Inr \<lparr>wr_success = True,
         wr_statistics = \<lparr>ws_chunks = 0, ws_elements = 0, ws_vertices = 0, ws_faces = 0,
           ws_materials = 0, ws_properties = 0\<rparr>\<rparr>)
   \<and> writtenFiles (CHDWriter_write (\<lambda>x. x) (newCHDWriter exampleOptions Map.empty)
       \<lparr>m_elements = ElementsArray [], m_materials = []\<rparr>) ''manifest.json''
     = Some (ManifestJson \<lparr>mf_format = ''CHD'', mf_version = ''1.0'',
         mf_bounding_box = \<lparr>bb_min = (0, 0, 0), bb_max = (0, 0, 0)\<rparr>,
         mf_geometry_chunks = [], mf_attribute_files = [], mf_spatial_index = None,
         mf_statistics = \<lparr>total_elements = 0, total_vertices = 0, total_faces = 0\<rparr>\<rparr>)"
  by code_simp

text \<open>
  Claim C6, amended. \<open>write\<close> rejects a model whose \<open>elements\<close> field is missing or is not
  an array: \<open>processModelData\<close> throws \<^verbatim>\<open>Model must contain an elements array\<close> when only
  the \<open>prepare\<close> progress event has been reported, and no file, chunk or manifest has been
  produced. A model whose element list is the empty array is accepted: on a new writer
  \<open>write\<close> returns successfully with 0 elements and 0 chunks, writes the manifest, and
  writes no spatial index.
\<close>

theorem write_elements_validation:
  "(m_elements model = ElementsMissing \<or> m_elements model = ElementsNotArray \<longrightarrow>
      CHDWriter_write f32 w model
        = Some (Inl (WritingFailed ModelMustContainElementsArray, reportProgress w ''prepare'' 5))
      \<and> w_files (reportProgress w ''prepare'' 5) = w_files w
      \<and> w_chunks (reportProgress w ''prepare'' 5) = w_chunks w
      \<and> w_manifest (reportProgress w ''prepare'' 5) = w_manifest w)
   \<and> (m_elements model = ElementsArray [] \<longrightarrow>
      (\<exists>res w'. CHDWriter_write f32 (newCHDWriter options files) model = Some (Inr (res, w'))
         \<and> wr_success res \<and> ws_elements (wr_statistics res) = 0
         \<and> ws_chunks (wr_statistics res) = 0
         \<and> (\<exists>m. w_files w' ''manifest.json'' = Some (ManifestJson m)
               \<and> total_elements (mf_statistics m) = 0)
         \<and> w_files w' ''spatial.idx'' = files ''spatial.idx''))"
proof (intro conjI impI)
  assume "m_elements model = ElementsMissing \<or> m_elements model = ElementsNotArray"
  then show "CHDWriter_write f32 w model
        = Some (Inl (WritingFailed ModelMustContainElementsArray, reportProgress w ''prepare'' 5))"
    by (auto simp add: CHDWriter_write_def processModelData_def)
next
  assume e: "m_elements model = ElementsArray []"
  let ?w1 = "reportProgress (newCHDWriter options files) ''prepare'' 5"
  let ?m0 = "\<lparr>mf_format = ''CHD'', mf_version = ''1.0'',
     mf_bounding_box = calculateProjectBoundingBox [],
     mf_geometry_chunks = [], mf_attribute_files = [], mf_spatial_index = None,
     mf_statistics = \<lparr>total_elements = 0, total_vertices = 0, total_faces = 0\<rparr>\<rparr>"
  let ?w2 = "processProperties (processMaterials (?w1\<lparr>w_manifest := Some ?m0\<rparr>)
     (m_materials model)) []"
  have s1: "processModelData ?w1 model = Some (Inr ?w2)"
    using e by (simp add: processModelData_def organizeElementsIntoChunks_def chunkLoop.simps)
  have w2: "manifestCore ?w2 = Some (''CHD'', ''1.0'',
      \<lparr>total_elements = 0, total_vertices = 0, total_faces = 0\<rparr>)"
    "w_chunks ?w2 = []" "w_files ?w2 = files"
    by (simp_all add: manifestCore_def processProperties_def processMaterials_def newCHDWriter_def)
  from afterModelData_result[OF w2(1), of f32] obtain res w' where
    r: "afterModelData f32 ?w2 = Inr (res, w')" "wr_success res"
      "ws_elements (wr_statistics res) = 0" "ws_chunks (wr_statistics res) = 0"
      "\<exists>m. w_files w' ''manifest.json'' = Some (ManifestJson m) \<and> total_elements (mf_statistics m) = 0"
      "w_files w' ''spatial.idx'' = files ''spatial.idx''"
    using w2(2,3) by auto
  have "CHDWriter_write f32 (newCHDWriter options files) model = Some (Inr (res, w'))"
    by (simp only: CHDWriter_write_def Let_def s1 r(1) option.case sum.case)
  with r show "\<exists>res w'. CHDWriter_write f32 (newCHDWriter options files) model = Some (Inr (res, w'))
         \<and> wr_success res \<and> ws_elements (wr_statistics res) = 0
         \<and> ws_chunks (wr_statistics res) = 0
         \<and> (\<exists>m. w_files w' ''manifest.json'' = Some (ManifestJson m)
               \<and> total_elements (mf_statistics m) = 0)
         \<and> w_files w' ''spatial.idx'' = files ''spatial.idx''"
    by blast
qed simp_all

theorem write_elements_validation_witness:
  "CHDWriter_write (\<lambda>x. x) (newCHDWriter defaultOptions Map.empty)
       \<lparr>m_elements = ElementsMissing, m_materials = []\<rparr>
     = Some (Inl (WritingFailed ModelMustContainElementsArray,
          reportProgress (newCHDWriter defaultOptions Map.empty) ''prepare'' 5))
   \<and> (\<exists>res w'. CHDWriter_write (\<lambda>x. x) (newCHDWriter defaultOptions Map.empty)
          \<lparr>m_elements = ElementsArray [], m_materials = []\<rparr> = Some (Inr (res, w'))
        \<and> wr_success res \<and> ws_elements (wr_statistics res) = 0
        \<and> ws_chunks (wr_statistics res) = 0
        \<and> (\<exists>m. w_files w' ''manifest.json'' = Some (ManifestJson m)
              \<and> total_elements (mf_statistics m) = 0)
        \<and> w_files w' ''spatial.idx'' = None)"
  using write_elements_validation
      [of "\<lparr>m_elements = ElementsMissing, m_materials = []\<rparr>" "\<lambda>x. x"
          "newCHDWriter defaultOptions Map.empty"]
    write_elements_validation
      [of "\<lparr>m_elements = ElementsArray [], m_materials = []\<rparr>" "\<lambda>x. x" _
          defaultOptions Map.empty]
  by simp

section \<open>Progress reports of \<open>write\<close>\<close>

lemma mathRound_of_int: "mathRound (of_int k) = k"
proof -
  have "\<lfloor>(of_int k :: rat) + 1 / 2\<rfloor> = k"
    by (rule floor_unique) simp_all
  then show ?thesis by (simp add: mathRound_def)
qed

lemma mathRound_numeral [simp]: "mathRound (numeral k) = numeral k"
  using mathRound_of_int[of "numeral k"] by simp

lemma mathRound_mono: "x \<le> y \<Longrightarrow> mathRound x \<le> mathRound y"
  by (simp add: mathRound_def floor_mono)

lemma progressEvent_fields [simp]:
  "pe_stage (progressEvent stage x) = stage"
  "pe_percentage (progressEvent stage x) = mathRound x"
  by (simp_all add: progressEvent_def)

lemma chunkPercentage_bounds:
  assumes "j < n"
  shows "20 \<le> mathRound (20 + (30 * (of_nat j + 1)) / of_nat n)
     \<and> mathRound (20 + (30 * (of_nat j + 1)) / of_nat n) \<le> 50"
proof -
  let ?x = "20 + (30 * (of_nat j + 1)) / (of_nat n :: rat)"
  have n: "(0 :: rat) < of_nat n" using assms by simp
  from assms have "Suc j \<le> n" by simp
  then have "(of_nat (Suc j) :: rat) \<le> of_nat n" by (rule of_nat_mono)
  then have "(of_nat j + 1 :: rat) \<le> of_nat n" by (simp add: add.commute)
  then have "(30 * (of_nat j + 1)) / (of_nat n :: rat) \<le> 30"
    using n by (simp add: divide_le_eq)
  moreover have "0 \<le> (30 * (of_nat j + 1)) / (of_nat n :: rat)"
    by simp
  ultimately have "(20 :: rat) \<le> ?x" "?x \<le> 50" by simp_all
  from mathRound_mono[OF this(1)] mathRound_mono[OF this(2)]
  show ?thesis by simp
qed

lemma chunkPercentage_mono:
  assumes "i \<le> j"
  shows "mathRound (20 + (30 * (of_nat i + 1)) / of_nat n)
     \<le> mathRound (20 + (30 * (of_nat j + 1)) / of_nat n)"
proof (rule mathRound_mono)
  have "(30 * (of_nat i + 1) :: rat) \<le> 30 * (of_nat j + 1)"
    using assms by simp
  then have "(30 * (of_nat i + 1)) / (of_nat n :: rat) \<le> (30 * (of_nat j + 1)) / of_nat n"
    by (rule divide_right_mono) simp
  then show "20 + (30 * (of_nat i + 1)) / (of_nat n :: rat) \<le> 20 + (30 * (of_nat j + 1)) / of_nat n"
    by simp
qed

lemma sorted_map_upt:
  assumes "\<And>i j. i \<le> j \<Longrightarrow> g i \<le> (g j :: int)"
  shows "sorted (map g [0..<n])"
proof (induction n)
  case 0
  then show ?case by simp
next
  case (Suc n)
  have "\<forall>x \<in> set (map g [0..<n]). x \<le> g n"
    using assms by auto
  with Suc show ?case by (simp add: sorted_append)
qed

lemma sorted_progress:
  assumes "sorted cs" "\<forall>x \<in> set cs. 20 \<le> x \<and> x \<le> (50 :: int)" "xs = [] \<or> xs = [85]"
  shows "sorted (5 # 20 # cs @ [50, 70] @ xs @ [95, 100])"
  using assms by (auto simp add: sorted_append)

text \<open>
  Claim C9. When \<open>write\<close> returns successfully and a progress callback is configured, the
  events passed to the callback during the call are not empty, their percentages never
  decrease, each percentage lies between 0 and 100, each event names a stage, and the
  last percentage is 100.
\<close>

theorem write_progress_monotone:
  assumes "CHDWriter_write f32 w model = Some (Inr (res, w'))"
    and "opt_progressCallback (w_options w)"
  shows "\<exists>events. w_progress w' = w_progress w @ events \<and> events \<noteq> []
     \<and> sorted (map pe_percentage events)
     \<and> (\<forall>e \<in> set events. 0 \<le> pe_percentage e \<and> pe_percentage e \<le> 100 \<and> pe_stage e \<noteq> [])
     \<and> pe_percentage (last events) = 100"
proof -
  from write_success_facts[OF assms(1)] assms(2) obtain n where
    log: "w_progress w' = w_progress w @
           (progressEvent ''prepare'' 5 # progressEvent ''process'' 20
             # map (\<lambda>j. progressEvent ''chunk'' (20 + (30 * (of_nat (0 + j) + 1)) / of_nat n)) [0..<n]
             @ [progressEvent ''geometry'' 50, progressEvent ''attributes'' 70]
             @ (if opt_createSpatialIndex (w_options w)
                then [progressEvent ''spatial_index'' 85] else [])
             @ [progressEvent ''manifest'' 95, progressEvent ''complete'' 100])"
    by auto
  let ?pct = "\<lambda>j. mathRound (20 + (30 * (of_nat j + 1)) / of_nat n)"
  let ?chunks = "map (\<lambda>j. progressEvent ''chunk'' (20 + (30 * (of_nat (0 + j) + 1)) / of_nat n)) [0..<n]"
  have pcts: "map pe_percentage ?chunks = map ?pct [0..<n]"
    by (simp add: comp_def)
  have srt: "sorted (map pe_percentage ?chunks)"
    unfolding pcts by (rule sorted_map_upt) (rule chunkPercentage_mono)
  have bnd: "\<forall>x \<in> set (map pe_percentage ?chunks). 20 \<le> x \<and> x \<le> 50"
    unfolding pcts using chunkPercentage_bounds by auto
  let ?events = "progressEvent ''prepare'' 5 # progressEvent ''process'' 20
             # ?chunks
             @ [progressEvent ''geometry'' 50, progressEvent ''attributes'' 70]
             @ (if opt_createSpatialIndex (w_options w)
                then [progressEvent ''spatial_index'' 85] else [])
             @ [progressEvent ''manifest'' 95, progressEvent ''complete'' 100]"
  have eq: "map pe_percentage ?events = 5 # 20 # map pe_percentage ?chunks @ [50, 70]
      @ (if opt_createSpatialIndex (w_options w) then [85] else []) @ [95, 100]"
    by simp
  have 1: "sorted (map pe_percentage ?events)"
    unfolding eq by (rule sorted_progress[OF srt bnd]) simp
  have 2: "\<forall>e \<in> set ?events. 0 \<le> pe_percentage e \<and> pe_percentage e \<le> 100 \<and> pe_stage e \<noteq> []"
  proof
    fix e assume "e \<in> set ?events"
    then consider "e \<in> set ?chunks"
      | "e \<in> {progressEvent ''prepare'' 5, progressEvent ''process'' 20,
           progressEvent ''geometry'' 50, progressEvent ''attributes'' 70,
           progressEvent ''spatial_index'' 85, progressEvent ''manifest'' 95,
           progressEvent ''complete'' 100}"
      by (auto split: if_splits)
    then show "0 \<le> pe_percentage e \<and> pe_percentage e \<le> 100 \<and> pe_stage e \<noteq> []"
    proof cases
      case 1
      then obtain j where "j < n" "e = progressEvent ''chunk'' (20 + (30 * (of_nat j + 1)) / of_nat n)"
        by auto
      with chunkPercentage_bounds[of j n] show ?thesis by simp
    next
      case 2
      then show ?thesis by auto
    qed
  qed
  have 3: "pe_percentage (last ?events) = 100" by simp
  show ?thesis
    using log 1 2 3 by (intro exI[of _ ?events]) blast
qed

theorem write_progress_monotone_witness:
  "\<exists>res w'. CHDWriter_write (\<lambda>x. x) (newCHDWriter exampleOptions Map.empty) exampleModel
       = Some (Inr (res, w'))
     \<and> opt_progressCallback (w_options (newCHDWriter exampleOptions Map.empty))
     \<and> (\<exists>events. w_progress w' = w_progress (newCHDWriter exampleOptions Map.empty) @ events
          \<and> events \<noteq> [] \<and> sorted (map pe_percentage events)
          \<and> (\<forall>e \<in> set events. 0 \<le> pe_percentage e \<and> pe_percentage e \<le> 100 \<and> pe_stage e \<noteq> [])
          \<and> pe_percentage (last events) = 100)"
proof -
  from exampleWrite_returns obtain res w' where
    h: "CHDWriter_write (\<lambda>x. x) (newCHDWriter exampleOptions Map.empty) exampleModel
       = Some (Inr (res, w'))"
    unfolding exampleWrite_def by blast
  have cb: "opt_progressCallback (w_options (newCHDWriter exampleOptions Map.empty))"
    by (simp add: newCHDWriter_def exampleOptions_def)
  from write_progress_monotone[OF h cb] h cb show ?thesis by blast
qed

section \<open>Round trip of the statistics\<close>

lemma loadChunk_keeps:
  "p_manifest (snd (loadChunk acc chunkInfo)) = p_manifest (snd acc)
   \<and> p_options (snd (loadChunk acc chunkInfo)) = p_options (snd acc)
   \<and> p_spatialIndex (snd (loadChunk acc chunkInfo)) = p_spatialIndex (snd acc)"
  by (simp add: loadChunk_def split: option.splits file_content.splits sum.splits)

lemma foldl_loadChunk_keeps:
  "p_manifest (snd (foldl loadChunk acc chunkInfos)) = p_manifest (snd acc)
   \<and> p_options (snd (foldl loadChunk acc chunkInfos)) = p_options (snd acc)
   \<and> p_spatialIndex (snd (foldl loadChunk acc chunkInfos)) = p_spatialIndex (snd acc)"
  by (induction chunkInfos arbitrary: acc) (simp_all add: loadChunk_keeps)

lemma afterManifest_result:
  assumes "p_manifest p1 = Some m"
  shows "\<exists>parsed. fst (afterManifest p1) = Inr parsed \<and> pm_statistics parsed = mf_statistics m
     \<and> p_manifest (snd (afterManifest p1)) = Some m"
proof -
  obtain spatialIndex where si: "loadSpatialIndex p1 = Inr spatialIndex"
    using assms
    by (cases "loadSpatialIndex p1")
       (auto simp add: loadSpatialIndex_def split: option.splits file_content.splits sum.splits)
  define p2 where "p2 = (if po_loadSpatialIndex (p_options p1)
     then p1\<lparr>p_spatialIndex := spatialIndex\<rparr> else p1)"
  have p2: "(if po_loadSpatialIndex (p_options p1)
            then (case loadSpatialIndex p1 of
                    Inl e \<Rightarrow> Inl e
                  | Inr spatialIndex \<Rightarrow> Inr (p1\<lparr>p_spatialIndex := spatialIndex\<rparr>))
            else Inr p1) = Inr p2" "p_manifest p2 = Some m"
    using assms si by (simp_all add: p2_def)
  define loaded where "loaded = foldl loadChunk ([], p2) (mf_geometry_chunks m)"
  define geometryData where
    "geometryData = (if po_loadGeometry (p_options p2) then Some (fst loaded) else None)"
  define p3 where "p3 = (if po_loadGeometry (p_options p2) then snd loaded else p2)"
  have p3: "(if po_loadGeometry (p_options p2)
            then (case loadGeometryChunks p2 of
                    Inl e \<Rightarrow> Inl e
                  | Inr loaded \<Rightarrow> Inr (Some (fst loaded), snd loaded))
            else Inr (None, p2)) = Inr (geometryData, p3)" "p_manifest p3 = Some m"
    using p2(2)
    by (simp_all add: loadGeometryChunks_def foldl_loadChunk_keeps geometryData_def p3_def
        loaded_def)
  obtain loadedAttributes where la: "loadAttributes p3 = Inr loadedAttributes"
    using p3(2) by (simp add: loadAttributes_def)
  define attributeData where
    "attributeData = (if po_loadAttributes (p_options p3) then Some loadedAttributes else None)"
  have ad: "(if po_loadAttributes (p_options p3)
            then (case loadAttributes p3 of
                    Inl e \<Rightarrow> Inl e
                  | Inr attributeData \<Rightarrow> Inr (Some attributeData))
            else Inr None) = Inr attributeData"
    using la by (simp add: attributeData_def)
  obtain parsed where pm: "assembleModel p3 geometryData attributeData = Inr parsed"
    "pm_statistics parsed = mf_statistics m"
    using p3(2) by (simp add: assembleModel_def Let_def)
  have "afterManifest p1 = (Inr parsed, p3)"
    by (simp only: afterManifest_def p2(1) p3(1) ad pm(1) sum.case prod.case)
  then show ?thesis using pm(2) p3(2) by simp
qed

lemma parse_result:
  assumes "files ''manifest.json'' = Some (ManifestJson m)"
    and "mf_format m = ''CHD''" "mf_version m = ''1.0''"
  shows "\<exists>parsed. fst (parse p files) = Inr parsed \<and> pm_statistics parsed = mf_statistics m
     \<and> p_manifest (snd (parse p files)) = Some m"
proof -
  have "loadManifest (p\<lparr>p_basePath := files\<rparr>) = Inr m"
    using assms by (simp add: loadManifest_def isVersionSupported_def)
  then have "parse p files = afterManifest (p\<lparr>p_basePath := files, p_manifest := Some m\<rparr>)"
    by (simp add: parse_def Let_def)
  with afterManifest_result[of "p\<lparr>p_basePath := files, p_manifest := Some m\<rparr>" m]
  show ?thesis by simp
qed

lemma exampleParser_loaded:
  "length (p_loadedChunks (exampleParser True)) = 2 \<and> p_spatialIndex (exampleParser True) \<noteq> None"
  by code_simp

text \<open>
  Claim C7. When \<open>write\<close> returns successfully, \<open>parse\<close> of the files it leaves returns a
  model, and both the model's statistics and the reader's \<open>getStatistics\<close> report the
  element, vertex and face counts of the writer's statistics.
\<close>

theorem roundtrip_statistics:
  assumes "CHDWriter_write f32 w model = Some (Inr (res, w'))"
  shows "(\<exists>parsed. fst (parse p (w_files w')) = Inr parsed
        \<and> total_elements (pm_statistics parsed) = ws_elements (wr_statistics res)
        \<and> total_vertices (pm_statistics parsed) = ws_vertices (wr_statistics res)
        \<and> total_faces (pm_statistics parsed) = ws_faces (wr_statistics res))
     \<and> getStatistics (snd (parse p (w_files w')))
        = Inr \<lparr>ps_total_elements = ws_elements (wr_statistics res),
               ps_total_vertices = ws_vertices (wr_statistics res),
               ps_total_faces = ws_faces (wr_statistics res),
               ps_chunksLoaded = length (p_loadedChunks (snd (parse p (w_files w')))),
               ps_spatialIndexLoaded = (p_spatialIndex (snd (parse p (w_files w'))) \<noteq> None)\<rparr>"
proof -
  from write_success_facts[OF assms] obtain st m where
    f: "ws_elements (wr_statistics res) = total_elements st"
       "ws_vertices (wr_statistics res) = total_vertices st"
       "ws_faces (wr_statistics res) = total_faces st"
       "w_files w' ''manifest.json'' = Some (ManifestJson m)"
       "mf_format m = ''CHD''" "mf_version m = ''1.0''" "mf_statistics m = st"
    by auto
  from parse_result[where files = "w_files w'" and m = m and p = p, OF f(4,5,6)] obtain parsed where
    r: "fst (parse p (w_files w')) = Inr parsed" "pm_statistics parsed = mf_statistics m"
       "p_manifest (snd (parse p (w_files w'))) = Some m"
    by blast
  show ?thesis
    using r f by (simp add: getStatistics_def)
qed

theorem roundtrip_statistics_witness:
  "\<exists>w'. CHDWriter_write (\<lambda>x. x) (newCHDWriter exampleOptions Map.empty) exampleModel
       = Some (Inr (\<lparr>wr_success = True,
            wr_statistics = \<lparr>ws_chunks = 2, ws_elements = 3, ws_vertices = 9, ws_faces = 3,
              ws_materials = 0, ws_properties = 0\<rparr>\<rparr>, w'))
     \<and> getStatistics (snd (parse
          (newCHDParser \<lparr>po_loadGeometry = True, po_loadAttributes = True,
             po_loadSpatialIndex = True\<rparr>) (w_files w')))
        = Inr \<lparr>ps_total_elements = 3, ps_total_vertices = 9, ps_total_faces = 3,
               ps_chunksLoaded = 2, ps_spatialIndexLoaded = True\<rparr>"
proof -
  let ?res = "\<lparr>wr_success = True,
            wr_statistics = \<lparr>ws_chunks = 2, ws_elements = 3, ws_vertices = 9, ws_faces = 3,
              ws_materials = 0, ws_properties = 0\<rparr>\<rparr>"
  let ?P = "newCHDParser \<lparr>po_loadGeometry = True, po_loadAttributes = True,
             po_loadSpatialIndex = True\<rparr>"
  from exampleWrite_returns obtain w' where ew: "exampleWrite = Some (Inr (?res, w'))"
    by blast
  then have h: "CHDWriter_write (\<lambda>x. x) (newCHDWriter exampleOptions Map.empty) exampleModel
       = Some (Inr (?res, w'))"
    by (simp add: exampleWrite_def)
  have "exampleParser True = snd (parse ?P (w_files w'))"
    unfolding exampleParser_def writtenFiles_def ew by simp
  with exampleParser_loaded have
    l: "length (p_loadedChunks (snd (parse ?P (w_files w')))) = 2"
       "p_spatialIndex (snd (parse ?P (w_files w'))) \<noteq> None"
    by simp_all
  from roundtrip_statistics[OF h, of ?P] l h show ?thesis
    by (intro exI[of _ w']) simp
qed

section \<open>Queries on the written spatial index\<close>

text \<open>
  Claim C1, as stated, fails in both parts on the container of the worked example
  (chunk \<open>001\<close> with the elements 97 and 98, chunk \<open>002\<close> with element 99).
  The query box \<open>[-1, 2]\<^sup>3\<close> returns 97 and 98, although the bounding box of element 98
  does not intersect it: a leaf is tested by its chunk's box only.
  The query box \<open>[19, 22] \<times> [-1, 2]\<^sup>2\<close> returns nothing, although the box of chunk \<open>002\<close>,
  which owns element 99, intersects it: the query starts at node 1, the leaf of the first
  chunk, and no node leads from there to the leaf of another chunk.
\<close>

theorem queryBounds_soundness_counterexample:
  "queryBounds 1 (the (p_spatialIndex (exampleParser True))) (- 1) (- 1) (- 1) 2 2 2 = Some [97, 98]
   \<and> map_option ce_boundingBox (findLoaded (p_loadedChunks (exampleParser True)) 98)
       = Some \<lparr>bb_min = (10, 0, 0), bb_max = (11, 1, 1)\<rparr>
   \<and> \<not> boundingBoxIntersects \<lparr>bb_min = (10, 0, 0), bb_max = (11, 1, 1)\<rparr>
         \<lparr>bb_min = (- 1, - 1, - 1), bb_max = (2, 2, 2)\<rparr>
   \<and> queryBounds 1 (the (p_spatialIndex (exampleParser True))) 19 (- 1) (- 1) 22 2 2 = Some []
   \<and> findChunkForElement (the (p_spatialIndex (exampleParser True))) 99 = Some 2
   \<and> map_option n_boundingBox (si_nodes (the (p_spatialIndex (exampleParser True))) 2)
       = Some \<lparr>bb_min = (20, 0, 0), bb_max = (21, 1, 1)\<rparr>
   \<and> boundingBoxIntersects \<lparr>bb_min = (20, 0, 0), bb_max = (21, 1, 1)\<rparr>
         \<lparr>bb_min = (19, - 1, - 1), bb_max = (22, 2, 2)\<rparr>"
  by code_simp

lemma set_foldl_setAdd:
  "set (foldl (\<lambda>res elementId. setAdd elementId res) results elementIds)
     = set results \<union> set elementIds"
  by (induction elementIds arbitrary: results) (auto simp add: setAdd_def)

lemma si_nodes_addNode:
  "si_nodes (addNode idx r) = (si_nodes idx)(nr_id r \<mapsto> parseNode r)"
  by (simp add: addNode_def Let_def parseNode_def split: option.splits)

lemma si_nodes_foldl_addNode:
  "si_nodes (foldl addNode idx records) k = Some nd \<Longrightarrow>
     si_nodes idx k = Some nd \<or> (\<exists>r \<in> set records. nd = parseNode r)"
proof (induction records arbitrary: idx)
  case Nil
  then show ?case by simp
next
  case (Cons r records)
  from Cons.IH[of "addNode idx r"] Cons.prems
  show ?case by (auto simp add: si_nodes_addNode split: if_splits)
qed

lemma createSpatialIndex_written:
  assumes "w_chunks w \<noteq> []" "createSpatialIndex f32 w = Inr w'"
    and "w_files w' ''spatial.idx'' = Some (SpatialIdx indexData)"
  shows "if_version indexData = 1 \<and> if_nodeCount indexData = length (w_chunks w)
     \<and> if_nodes indexData = map (\<lambda>(i, chunk). leafRecord f32 i chunk) (enumerate 0 (w_chunks w))"
  using assms
  by (auto simp add: createSpatialIndex_def Let_def split: option.splits)

lemma queryNode_leaf:
  assumes "si_nodes idx nodeId = Some nd" "n_isLeaf nd"
  shows "queryNode (Suc fuel) idx nodeId queryBox results
     = Some (if boundingBoxIntersects (n_boundingBox nd) queryBox
             then foldl (\<lambda>res elementId. setAdd elementId res) results (n_elementIds nd)
             else results)"
  using assms by simp

lemma createSpatialIndex_loads:
  assumes "w_chunks w \<noteq> []" "w_manifest w = Some m"
  shows "\<exists>w' indexData spatialIndex. createSpatialIndex f32 w = Inr w'
     \<and> w_files w' ''spatial.idx'' = Some (SpatialIdx indexData)
     \<and> loadFromBinary newSpatialIndex indexData = Inr spatialIndex"
  using assms by (simp add: createSpatialIndex_def Let_def loadFromBinary_def)

lemma exampleProcessed_facts:
  "length (w_chunks exampleProcessed) = 1
   \<and> w_manifest exampleProcessed \<noteq> None
   \<and> map (\<lambda>e. toUint32 (te_id e)) (ch_elementTable (hd (w_chunks exampleProcessed))) = [97, 98]
   \<and> boundingBoxIntersects
        (f32Box (\<lambda>x. x) (calculateChunkBoundingBox (ch_vertices (hd (w_chunks exampleProcessed)))))
        \<lparr>bb_min = (- 1, - 1, - 1), bb_max = (2, 2, 2)\<rparr>"
  by code_simp

text \<open>
  Claim C1, amended. For a spatial index produced by \<open>createSpatialIndex\<close> and loaded by
  \<open>loadFromBinary\<close>, and for every query box, \<open>queryBounds\<close> returns, and every element ID
  it returns is listed in a chunk whose chunk-level bounding box (as stored, rounded to
  binary32) intersects the query box; element bounding boxes are not tested. When the
  index was written from a single chunk whose box intersects the query box, the result
  holds exactly the element IDs of that chunk.
\<close>

theorem queryBounds_chunk_granularity:
  assumes "w_chunks w \<noteq> []" and "createSpatialIndex f32 w = Inr w'"
    and "w_files w' ''spatial.idx'' = Some (SpatialIdx indexData)"
    and "loadFromBinary newSpatialIndex indexData = Inr spatialIndex"
  shows "\<exists>results. queryBounds (Suc fuel) spatialIndex minX minY minZ maxX maxY maxZ = Some results
     \<and> (\<forall>elementId \<in> set results. \<exists>chunk \<in> set (w_chunks w).
           elementId \<in> set (map (\<lambda>e. toUint32 (te_id e)) (ch_elementTable chunk))
           \<and> boundingBoxIntersects (f32Box f32 (calculateChunkBoundingBox (ch_vertices chunk)))
                \<lparr>bb_min = (minX, minY, minZ), bb_max = (maxX, maxY, maxZ)\<rparr>)
     \<and> (\<forall>chunk. w_chunks w = [chunk]
           \<and> boundingBoxIntersects (f32Box f32 (calculateChunkBoundingBox (ch_vertices chunk)))
                \<lparr>bb_min = (minX, minY, minZ), bb_max = (maxX, maxY, maxZ)\<rparr>
           \<longrightarrow> set results = set (map (\<lambda>e. toUint32 (te_id e)) (ch_elementTable chunk)))"
proof -
  let ?q = "\<lparr>bb_min = (minX, minY, minZ), bb_max = (maxX, maxY, maxZ)\<rparr>"
  let ?records = "map (\<lambda>(i, chunk). leafRecord f32 i chunk) (enumerate 0 (w_chunks w))"
  let ?idx0 = "newSpatialIndex\<lparr>si_type := JNum (if_type indexData),
     si_maxDepth := if_maxDepth indexData, si_nodeCount := if_nodeCount indexData,
     si_leafCount := if_leafCount indexData, si_boundingBox := Some (if_boundingBox indexData)\<rparr>"
  from createSpatialIndex_written[OF assms(1-3)] have
    f: "if_version indexData = 1" "if_nodeCount indexData = length (w_chunks w)"
       "if_nodes indexData = ?records"
    by simp_all
  with assms(4) have idx: "spatialIndex = foldl addNode ?idx0 ?records"
    by (simp add: loadFromBinary_def)
  have leaves: "\<exists>i chunk. chunk \<in> set (w_chunks w) \<and> nd = parseNode (leafRecord f32 i chunk)"
    if "si_nodes spatialIndex k = Some nd" for k nd
  proof -
    from si_nodes_foldl_addNode[OF that[unfolded idx]]
    obtain r where "r \<in> set ?records" "nd = parseNode r"
      by (auto simp add: newSpatialIndex_def)
    then obtain i chunk where ic: "(i, chunk) \<in> set (enumerate 0 (w_chunks w))"
      "nd = parseNode (leafRecord f32 i chunk)"
      by auto
    from ic(1) have "chunk \<in> set (w_chunks w)"
      by (auto simp add: in_set_enumerate_eq)
    with ic(2) show ?thesis by blast
  qed
  show ?thesis
  proof (cases "si_nodes spatialIndex 1")
    case None
    then have "queryBounds (Suc fuel) spatialIndex minX minY minZ maxX maxY maxZ = Some []"
      by (simp add: queryBounds_def)
    moreover have "w_chunks w \<noteq> [chunk]" for chunk
    proof
      assume "w_chunks w = [chunk]"
      then have "si_nodes spatialIndex 1 = Some (parseNode (leafRecord f32 0 chunk))"
        by (simp add: idx si_nodes_addNode leafRecord_def toUint32_def)
      with None show False by simp
    qed
    ultimately show ?thesis by simp
  next
    case (Some nd)
    from leaves[OF Some] obtain i chunk where
      c: "chunk \<in> set (w_chunks w)" "nd = parseNode (leafRecord f32 i chunk)"
      by blast
    have nd: "n_isLeaf nd" "n_elementIds nd = map (\<lambda>e. toUint32 (te_id e)) (ch_elementTable chunk)"
      "n_boundingBox nd = f32Box f32 (calculateChunkBoundingBox (ch_vertices chunk))"
      by (simp_all add: c(2) parseNode_def leafRecord_def)
    let ?results = "if boundingBoxIntersects (n_boundingBox nd) ?q
       then foldl (\<lambda>res elementId. setAdd elementId res) [] (n_elementIds nd) else []"
    have run: "queryBounds (Suc fuel) spatialIndex minX minY minZ maxX maxY maxZ = Some ?results"
      unfolding queryBounds_def by (rule queryNode_leaf[OF Some nd(1)])
    have sound: "\<forall>elementId \<in> set ?results. \<exists>chunk \<in> set (w_chunks w).
           elementId \<in> set (map (\<lambda>e. toUint32 (te_id e)) (ch_elementTable chunk))
           \<and> boundingBoxIntersects (f32Box f32 (calculateChunkBoundingBox (ch_vertices chunk))) ?q"
      using c(1) nd(2,3) by (auto simp add: set_foldl_setAdd)
    have single: "set ?results = set (map (\<lambda>e. toUint32 (te_id e)) (ch_elementTable chunk'))"
      if "w_chunks w = [chunk']"
        "boundingBoxIntersects (f32Box f32 (calculateChunkBoundingBox (ch_vertices chunk'))) ?q"
      for chunk'
    proof -
      from that(1) c(1) have "chunk = chunk'" by simp
      with that(2) nd(2,3) show ?thesis by (simp add: set_foldl_setAdd)
    qed
    show ?thesis
      using run sound single by (intro exI[of _ ?results]) blast
  qed
qed

theorem queryBounds_chunk_granularity_witness:
  "\<exists>w' indexData spatialIndex results.
     w_chunks exampleProcessed \<noteq> []
     \<and> createSpatialIndex (\<lambda>x. x) exampleProcessed = Inr w'
     \<and> w_files w' ''spatial.idx'' = Some (SpatialIdx indexData)
     \<and> loadFromBinary newSpatialIndex indexData = Inr spatialIndex
     \<and> queryBounds (Suc 0) spatialIndex (- 1) (- 1) (- 1) 2 2 2 = Some results
     \<and> set results = {97, 98}"
proof -
  from exampleProcessed_facts obtain chunk m where
    c: "w_chunks exampleProcessed = [chunk]" and m: "w_manifest exampleProcessed = Some m"
    by (cases "w_chunks exampleProcessed") auto
  with exampleProcessed_facts have
    ids: "map (\<lambda>e. toUint32 (te_id e)) (ch_elementTable chunk) = [97, 98]"
    and box: "boundingBoxIntersects
        (f32Box (\<lambda>x. x) (calculateChunkBoundingBox (ch_vertices chunk)))
        \<lparr>bb_min = (- 1, - 1, - 1), bb_max = (2, 2, 2)\<rparr>"
    by simp_all
  have ne: "w_chunks exampleProcessed \<noteq> []" using c by simp
  from createSpatialIndex_loads[OF ne m, of "\<lambda>x. x"] obtain w' indexData spatialIndex where
    h: "createSpatialIndex (\<lambda>x. x) exampleProcessed = Inr w'"
       "w_files w' ''spatial.idx'' = Some (SpatialIdx indexData)"
       "loadFromBinary newSpatialIndex indexData = Inr spatialIndex"
    by blast
  from queryBounds_chunk_granularity[OF ne h, of 0 "- 1" "- 1" "- 1" 2 2 2]
  obtain results where
    r: "queryBounds (Suc 0) spatialIndex (- 1) (- 1) (- 1) 2 2 2 = Some results"
       "\<forall>chunk. w_chunks exampleProcessed = [chunk]
           \<and> boundingBoxIntersects (f32Box (\<lambda>x. x) (calculateChunkBoundingBox (ch_vertices chunk)))
                \<lparr>bb_min = (- 1, - 1, - 1), bb_max = (2, 2, 2)\<rparr>
           \<longrightarrow> set results = set (map (\<lambda>e. toUint32 (te_id e)) (ch_elementTable chunk))"
    by blast
  from r(2) c box ids have "set results = {97, 98}" by auto
  with ne h r(1) show ?thesis by blast
qed

section \<open>Validation of a parsed chunk\<close>

text \<open>
  Claim C4, as stated, fails. The cube with 8 vertices whose second face refers to vertex
  index 99 is written as the only element of a model and parsed back; \<open>validate\<close> of its
  chunk returns \<open>isValid = false\<close>, but with two errors for the one reference: the
  chunk-wide one and the per-element one.
\<close>

theorem validate_reports_twice_counterexample:
  "map (\<lambda>(chunkId, chunk). (chunkId, map fst (gc_elements chunk),
          map_option length (gc_vertices chunk), validate chunk))
     (p_loadedChunks brokenCubeParser)
   = [(JStr ''001'', [97], Some 8, \<lparr>vr_isValid = False,
        vr_errors = [FaceInvalidIndex 1 99, ElementFaceInvalidIndex 97 1 99]\<rparr>)]
   \<and> length [FaceInvalidIndex 1 99, ElementFaceInvalidIndex 97 1 99] = 2"
  by code_simp

lemma toUint32_faces:
  "list_all uint32Face faces \<Longrightarrow>
     map (\<lambda>(a, b, c). (toUint32 a, toUint32 b, toUint32 c)) faces = faces"
  by (induction faces) (auto simp add: uint32Face_def toUint32_def)

lemma brokenCube_facts:
  "invalidRefs (length [(0, 0, 0), (1, 0, 0), (1, 1, 0), (0, 1, 0),
             (0, 0, 1), (1, 0, 1), (1, 1, 1), (0, 1, 1 :: rat) :: vec3]) [(0, 1, 2), (2, 3, 99)]
           = [(1, 99)]
   \<and> toUint32 (fst (CHDWriter_convertToNumericId Map.empty (elementKey brokenCube))) = 97"
  by code_simp

text \<open>
  Claim C4, amended. For a chunk written from a single element (whose face indices are
  unsigned 32-bit numbers) and parsed back, \<open>validate\<close> reports every out-of-range vertex
  reference twice: its errors are the chunk-wide errors, each naming the face and the
  index, followed by as many per-element errors, each naming the element, the face and
  the index; \<open>isValid\<close> is false exactly when there is such a reference. One reference to
  index 99 in an element of 8 vertices therefore gives \<open>isValid = false\<close> and exactly two
  errors.
\<close>

theorem validate_single_element:
  assumes "el_vertices element = Some vertices" "el_faces element = Some faces"
    and "list_all uint32Face faces"
    and "chunk = fst (processElements [element] 0 0
           \<lparr>ch_id = chunkId, ch_elements = [element], ch_vertices = [], ch_faces = [],
            ch_elementTable = []\<rparr> idMapping)"
    and "surrogate = toUint32 (fst (CHDWriter_convertToNumericId idMapping (elementKey element)))"
  shows "\<exists>parsed. parseFromBinary (createGeometryChunkBinary f32 options chunk) = Inr parsed
     \<and> vr_errors (validate parsed)
         = map (\<lambda>(i, vertexIndex). FaceInvalidIndex i vertexIndex)
             (invalidRefs (length vertices) faces)
           @ map (\<lambda>(i, vertexIndex). ElementFaceInvalidIndex surrogate i vertexIndex)
               (invalidRefs (length vertices) faces)
     \<and> length (vr_errors (validate parsed)) = 2 * length (invalidRefs (length vertices) faces)
     \<and> vr_isValid (validate parsed) = (invalidRefs (length vertices) faces = [])"
proof -
  have faces0: "map (\<lambda>(a, b, c). (a + int 0, b + int 0, c + int 0)) faces = faces"
    by (induction faces) auto
  have faces1: "map (\<lambda>(a, b, c). (a - int 0, b - int 0, c - int 0)) faces = faces"
    by (induction faces) auto
  have chunk: "ch_vertices chunk = vertices" "ch_faces chunk = faces"
    "\<exists>entry. ch_elementTable chunk = [entry] \<and> toUint32 (te_id entry) = surrogate
       \<and> te_vertexOffset entry = 0 \<and> te_vertexCount entry = length vertices
       \<and> te_faceOffset entry = 0 \<and> te_faceCount entry = length faces"
    using assms(1,2) faces0 by (simp_all add: assms(4,5) Let_def)
  then obtain entry where entry: "ch_elementTable chunk = [entry]" "toUint32 (te_id entry) = surrogate"
       "te_vertexOffset entry = 0" "te_vertexCount entry = length vertices"
       "te_faceOffset entry = 0" "te_faceCount entry = length faces"
    by blast
  let ?parsed = "\<lparr>gc_header = Some (cf_header (createGeometryChunkBinary f32 options chunk)),
     gc_elements = [(surrogate,
        \<lparr>ce_id = surrogate, ce_type = getElementTypeName (toUint16 (te_type entry)),
          ce_materialId = toUint16 (te_materialId entry),
          ce_vertices = map (f32Vec f32) vertices, ce_faces = faces,
          ce_boundingBox = calculateElementBoundingBox (map (f32Vec f32) vertices)\<rparr>)],
     gc_vertices = Some (map (f32Vec f32) vertices), gc_faces = Some faces,
     gc_elementTable = cf_elementTable (createGeometryChunkBinary f32 options chunk)\<rparr>"
  have p: "parseFromBinary (createGeometryChunkBinary f32 options chunk) = Inr ?parsed"
    using chunk(1,2) entry faces1 toUint32_faces[OF assms(3)]
    by (simp add: parseFromBinary_def createGeometryChunkBinary_def Let_def
        organizeGeometryData_def organizeElement_def)
  have v: "validate ?parsed = \<lparr>vr_isValid = (invalidRefs (length vertices) faces = []),
     vr_errors = map (\<lambda>(i, vertexIndex). FaceInvalidIndex i vertexIndex)
             (invalidRefs (length vertices) faces)
           @ map (\<lambda>(i, vertexIndex). ElementFaceInvalidIndex surrogate i vertexIndex)
               (invalidRefs (length vertices) faces)\<rparr>"
    by (simp add: validate_def Object_values_def Let_def)
  show ?thesis
    unfolding p using v by simp
qed

theorem validate_single_element_witness:
  "\<exists>parsed. parseFromBinary (createGeometryChunkBinary (\<lambda>x. x) exampleOptions
        (fst (processElements [brokenCube] 0 0
           \<lparr>ch_id = ''001'', ch_elements = [brokenCube], ch_vertices = [], ch_faces = [],
            ch_elementTable = []\<rparr> Map.empty))) = Inr parsed
     \<and> vr_errors (validate parsed) = [FaceInvalidIndex 1 99, ElementFaceInvalidIndex 97 1 99]
     \<and> length (vr_errors (validate parsed)) = 2
     \<and> vr_isValid (validate parsed) = False"
proof -
  have h1: "el_vertices brokenCube = Some [(0, 0, 0), (1, 0, 0), (1, 1, 0), (0, 1, 0),
                          (0, 0, 1), (1, 0, 1), (1, 1, 1), (0, 1, 1)]"
    and h2: "el_faces brokenCube = Some [(0, 1, 2), (2, 3, 99)]"
    by (simp_all add: brokenCube_def)
  have h3: "list_all uint32Face [(0, 1, 2), (2, 3, 99)]"
    by (simp add: uint32Face_def)
  have r: "invalidRefs (length [(0, 0, 0), (1, 0, 0), (1, 1, 0), (0, 1, 0),
             (0, 0, 1), (1, 0, 1), (1, 1, 1), (0, 1, 1 :: rat) :: vec3]) [(0, 1, 2), (2, 3, 99)]
           = [(1, 99)]"
    and s: "toUint32 (fst (CHDWriter_convertToNumericId Map.empty (elementKey brokenCube))) = 97"
    using brokenCube_facts by blast+
  from validate_single_element[where chunkId = "''001''" and idMapping = Map.empty
      and options = exampleOptions and ?f32.0 = "\<lambda>x. x", OF h1 h2 h3 refl refl]
  obtain parsed where
    p: "parseFromBinary (createGeometryChunkBinary (\<lambda>x. x) exampleOptions
        (fst (processElements [brokenCube] 0 0
           \<lparr>ch_id = ''001'', ch_elements = [brokenCube], ch_vertices = [], ch_faces = [],
            ch_elementTable = []\<rparr> Map.empty))) = Inr parsed"
    and e: "vr_errors (validate parsed) = [FaceInvalidIndex 1 99, ElementFaceInvalidIndex 97 1 99]"
    and v: "vr_isValid (validate parsed) = False"
    unfolding r s by auto
  from e have "length (vr_errors (validate parsed)) = 2" by simp
  with p e v show ?thesis by blast
qed

end
